theory Spec2Isabelle
  imports Main "HOL-Library.AList"
begin

section \<open>Text helpers\<close>

text \<open>
  Cells and names are Python \<open>str\<close> values; they are modelled as \<open>string\<close> and taken
  to be ASCII text. A missing value (\<open>NaN\<close>) is \<open>None\<close>, so a cell is a
  \<open>string option\<close>.
\<close>

text \<open>\<open>sub in s\<close> on two strings.\<close>

fun starts_with :: "string \<Rightarrow> string \<Rightarrow> bool" where
  "starts_with [] s = True"
| "starts_with (p # ps) [] = False"
| "starts_with (p # ps) (c # cs) = (p = c \<and> starts_with ps cs)"

fun contains :: "string \<Rightarrow> string \<Rightarrow> bool" where
  "contains sub [] = (sub = [])"
| "contains sub (c # cs) = (starts_with sub (c # cs) \<or> contains sub cs)"

text \<open>
  \<open>str.isspace\<close> on the ASCII range: the codes 9 to 13, 28 to 31, and the blank.
\<close>

definition is_space :: "char \<Rightarrow> bool" where
  "is_space c =
     (c \<in> set [CHR 0x09, CHR 0x0A, CHR 0x0B, CHR 0x0C, CHR 0x0D,
                CHR 0x1C, CHR 0x1D, CHR 0x1E, CHR 0x1F, CHR '' ''])"

text \<open>\<open>s.strip()\<close>.\<close>

definition strip :: "string \<Rightarrow> string" where
  "strip s = rev (dropWhile is_space (rev (dropWhile is_space s)))"

text \<open>\<open>s.lower()\<close> on ASCII text.\<close>

definition lower_char :: "char \<Rightarrow> char" where
  "lower_char c =
     (case map_of (zip ''ABCDEFGHIJKLMNOPQRSTUVWXYZ'' ''abcdefghijklmnopqrstuvwxyz'') c of
        None \<Rightarrow> c
      | Some l \<Rightarrow> l)"

definition lower :: "string \<Rightarrow> string" where
  "lower s = map lower_char s"

text \<open>\<open>str(n)\<close> for an integer: its decimal digits, with a sign.\<close>

definition digit_char :: "nat \<Rightarrow> char" where
  "digit_char d = ''0123456789'' ! d"

function digits :: "nat \<Rightarrow> string" where
  "digits n = (if n < 10 then [digit_char n] else digits (n div 10) @ [digit_char (n mod 10)])"
  by pat_completeness auto
termination
  by (relation "measure id") auto

declare digits.simps [simp del]

definition str_int :: "int \<Rightarrow> string" where
  "str_int i = (if i < 0 then CHR ''-'' # digits (nat (- i)) else digits (nat i))"

section \<open>Name normalizer\<close>

text \<open>
  \<open>clean_name\<close>: a missing value stays missing; otherwise every \<open>*\<close> is removed and
  the result is stripped.
\<close>

definition clean_name :: "string option \<Rightarrow> string option" where
  "clean_name name =
     (case name of
        None \<Rightarrow> None
      | Some s \<Rightarrow> Some (strip (filter (\<lambda>c. c \<noteq> CHR ''*'') s)))"

text \<open>\<open>is_invalid\<close>: missing, or one of \<open>''\<close>, \<open>-\<close>, \<open>nan\<close> once stripped and lowered.\<close>

definition is_invalid :: "string option \<Rightarrow> bool" where
  "is_invalid name =
     (case name of
        None \<Rightarrow> True
      | Some s \<Rightarrow> lower (strip s) \<in> set ['''', ''-'', ''nan''])"

section \<open>External services and their trace\<close>

text \<open>
  The two directions in which the language model is asked: the prompt of
  \<open>common_name_to_latin\<close> and the prompt of \<open>latin_to_common_name\<close>.
\<close>

datatype direction = CommonToLatin | LatinToCommon

text \<open>
  What the run does to the outside, in order: a request to the language model, a
  \<open>time.sleep\<close> of so many seconds, and a use of the taxonomy client (its
  initialisation followed by \<open>get_name_translator\<close> on a list of names).
\<close>

datatype event = OracleCall direction string | Sleep nat | Lookup "string list"

record world =
  events :: "event list"

text \<open>
  The collaborators are parameters of the model. Each may answer differently from
  call to call, so each sees the trace so far.
  \<^item> \<open>glm\<close>: the chat completion for a prompt direction and a name; \<open>Inr\<close> is the
    message content, \<open>Inl\<close> is \<open>str(e)\<close> of an exception raised anywhere in the
    \<open>try\<close> block.
  \<^item> \<open>ncbi\<close>: \<open>NCBITaxa(taxdump_file=cache_dir)\<close> followed by
    \<open>get_name_translator(names)\<close>; \<open>Inr\<close> is the dictionary from a name to its list
    of identifiers, \<open>Inl\<close> is \<open>str(e)\<close> of an exception raised by either. The cache
    path is fixed for a run and is part of this parameter.
  \<^item> \<open>set_order\<close>: the order in which \<open>list(set(...))\<close> enumerates the distinct
    elements it is given.
\<close>

record env =
  glm :: "event list \<Rightarrow> direction \<Rightarrow> string \<Rightarrow> string + string"
  ncbi :: "event list \<Rightarrow> string list \<Rightarrow> string + (string \<rightharpoonup> int list)"
  set_order :: "string list \<Rightarrow> string list"

definition log_event :: "event \<Rightarrow> world \<Rightarrow> world" where
  "log_event e w = w\<lparr>events := events w @ [e]\<rparr>"

section \<open>Name resolver\<close>

text \<open>
  The body shared by \<open>common_name_to_latin\<close> and \<open>latin_to_common_name\<close>: the
  stripped content, \<open>unrecognizable\<close> when that is empty, and a string starting with
  \<open>GLM call failed: \<close> for any exception.
\<close>

definition glm_convert :: "env \<Rightarrow> direction \<Rightarrow> string \<Rightarrow> world \<Rightarrow> string \<times> world" where
  "glm_convert en d name w =
     (let w' = log_event (OracleCall d name) w
      in case glm en (events w) d name of
           Inl e \<Rightarrow> (''GLM call failed: '' @ e, w')
         | Inr content \<Rightarrow>
             (let s = strip content in (if s = [] then ''unrecognizable'' else s, w')))"

definition common_name_to_latin :: "env \<Rightarrow> string \<Rightarrow> world \<Rightarrow> string \<times> world" where
  "common_name_to_latin en = glm_convert en CommonToLatin"

definition latin_to_common_name :: "env \<Rightarrow> string \<Rightarrow> world \<Rightarrow> string \<times> world" where
  "latin_to_common_name en = glm_convert en LatinToCommon"

text \<open>
  The inner \<open>for i in range(retries)\<close> loop over the remaining values of \<open>i\<close>:
  \<open>Some\<close> result at the \<open>break\<close>, \<open>None\<close> when the loop runs out (its \<open>else\<close>
  branch).
\<close>

fun attempts :: "env \<Rightarrow> direction \<Rightarrow> string \<Rightarrow> nat list \<Rightarrow> world \<Rightarrow> string option \<times> world" where
  "attempts en d name [] w = (None, w)"
| "attempts en d name (i # rest) w =
     (case glm_convert en d name w of
        (res, w1) \<Rightarrow>
          if \<not> contains ''GLM call failed'' res then (Some res, w1)
          else attempts en d name rest (log_event (Sleep (2 * (i + 1))) w1))"

text \<open>A dictionary is an association list in insertion order; \<open>d[k] = v\<close> is \<open>AList.update\<close>.\<close>

type_synonym dict = "(string \<times> string) list"

text \<open>One round of the outer \<open>for name in ...\<close> loop.\<close>

definition resolve_name :: "env \<Rightarrow> direction \<Rightarrow> string \<Rightarrow> dict \<times> world \<Rightarrow> dict \<times> world" where
  "resolve_name en d name st =
     (case st of
        (m, w) \<Rightarrow>
          (case attempts en d name [0 ..< 3] w of
             (Some res, w') \<Rightarrow> (AList.update name res m, w')
           | (None, w') \<Rightarrow> (AList.update name ''GLM call failed'' m, w')))"

definition batch_resolve :: "env \<Rightarrow> direction \<Rightarrow> string list \<Rightarrow> world \<Rightarrow> dict \<times> world" where
  "batch_resolve en d names w =
     (if names = [] then ([], w) else fold (resolve_name en d) names ([], w))"

definition batch_common_to_latin :: "env \<Rightarrow> string list \<Rightarrow> world \<Rightarrow> dict \<times> world" where
  "batch_common_to_latin en = batch_resolve en CommonToLatin"

definition batch_latin_to_common :: "env \<Rightarrow> string list \<Rightarrow> world \<Rightarrow> dict \<times> world" where
  "batch_latin_to_common en = batch_resolve en LatinToCommon"

section \<open>Identifier lookup\<close>

text \<open>
  The loop inside the \<open>try\<close> of \<open>batch_latin_to_taxid_ete3\<close>. \<open>taxid_list[0]\<close> on an
  empty list raises \<open>IndexError\<close>: \<open>Inl\<close> carries the dictionary built so far and the
  exception's message.
\<close>

fun taxid_loop :: "(string \<rightharpoonup> int list) \<Rightarrow> string list \<Rightarrow> dict \<Rightarrow> (dict \<times> string) + dict" where
  "taxid_loop raw [] m = Inr m"
| "taxid_loop raw (n # ns) m =
     (case raw n of
        None \<Rightarrow> taxid_loop raw ns (AList.update n (''Not found: '' @ [CHR 0x27] @ n @ [CHR 0x27]) m)
      | Some [] \<Rightarrow> Inl (m, ''list index out of range'')
      | Some (t # ts) \<Rightarrow> taxid_loop raw ns (AList.update n (str_int t) m))"

text \<open>The \<open>except\<close> branch: the message's category, chosen by keyword.\<close>

definition error_str :: "string \<Rightarrow> string" where
  "error_str e =
     (let error_msg = lower e
      in if list_ex (\<lambda>keyword. contains keyword error_msg) [''cache'', ''taxdump'', ''sqlite'']
         then ''Cache error: '' @ e
         else if list_ex (\<lambda>keyword. contains keyword error_msg) [''connection'', ''network'', ''download'']
         then ''Network error: '' @ e
         else ''Error: '' @ e)"

text \<open>The \<open>for name in latin_names: if name not in taxid_map\<close> loop of the \<open>except\<close> branch.\<close>

definition fill_errors :: "string \<Rightarrow> string list \<Rightarrow> dict \<Rightarrow> dict" where
  "fill_errors err names m =
     fold (\<lambda>name acc. if map_of acc name = None then AList.update name err acc else acc) names m"

definition batch_latin_to_taxid_ete3 :: "env \<Rightarrow> string list \<Rightarrow> world \<Rightarrow> dict \<times> world" where
  "batch_latin_to_taxid_ete3 en latin_names w =
     (if latin_names = [] then ([], w)
      else
        (let w' = log_event (Lookup latin_names) w
         in case ncbi en (events w) latin_names of
              Inl e \<Rightarrow> (fill_errors (error_str e) latin_names [], w')
            | Inr raw \<Rightarrow>
                (case taxid_loop raw latin_names [] of
                   Inr m \<Rightarrow> (m, w')
                 | Inl (m, e) \<Rightarrow> (fill_errors (error_str e) latin_names m, w'))))"

section \<open>The table\<close>

text \<open>
  A record of the table as it is read: the three columns the run works on. The
  content of a cell is its text; the other columns of the file are never read or
  written.
\<close>

record entry =
  Common_Name :: "string option"
  Latin_name :: "string option"
  Taxonomy_ID :: "string option"

text \<open>A row while the run works on it: the three columns and the three temporary ones.\<close>

record wrow =
  common_col :: "string option"
  latin_col :: "string option"
  taxid_col :: "string option"
  temp_common :: "string option"
  temp_latin :: "string option"
  temp_taxid :: "string option"

section \<open>pandas operations\<close>

text \<open>\<open>Series.unique()\<close>: the distinct values in order of first appearance.\<close>

fun unique_from :: "'a list \<Rightarrow> 'a list \<Rightarrow> 'a list" where
  "unique_from seen [] = []"
| "unique_from seen (x # xs) =
     (if x \<in> set seen then unique_from seen xs else x # unique_from (x # seen) xs)"

definition unique :: "'a list \<Rightarrow> 'a list" where
  "unique xs = unique_from [] xs"

text \<open>\<open>Series.map(d)\<close> on one value: a missing value and a missing key both give a missing value.\<close>

definition series_map :: "dict \<Rightarrow> string option \<Rightarrow> string option" where
  "series_map d v = (case v of None \<Rightarrow> None | Some k \<Rightarrow> map_of d k)"

text \<open>\<open>a.fillna(b)\<close> on one row.\<close>

definition fillna :: "string option \<Rightarrow> string option \<Rightarrow> string option" where
  "fillna a b = (case a of None \<Rightarrow> b | Some v \<Rightarrow> Some v)"

text \<open>\<open>df.loc[mask, col] = value\<close>: the rows under the mask are updated, the others kept.\<close>

definition assign_where :: "(wrow \<Rightarrow> bool) \<Rightarrow> (wrow \<Rightarrow> wrow) \<Rightarrow> wrow list \<Rightarrow> wrow list" where
  "assign_where msk upd df = map (\<lambda>r. if msk r then upd r else r) df"

text \<open>\<open>df.loc[mask, col]\<close> as a list of cells.\<close>

definition column_where :: "(wrow \<Rightarrow> bool) \<Rightarrow> (wrow \<Rightarrow> string option) \<Rightarrow> wrow list \<Rightarrow> string option list" where
  "column_where msk col df = map col (filter msk df)"

text \<open>The cells of a list that hold text.\<close>

definition present :: "string option list \<Rightarrow> string list" where
  "present vs = List.map_filter id vs"

text \<open>\<open>list(set(xs))\<close>.\<close>

definition list_of_set :: "env \<Rightarrow> string list \<Rightarrow> string list" where
  "list_of_set en xs = set_order en (remdups xs)"

section \<open>Reconciliation engine\<close>

text \<open>Step 1: cleaning of the two name columns, and the fresh temporary columns.\<close>

definition clean_row :: "entry \<Rightarrow> wrow" where
  "clean_row r =
     \<lparr>common_col = clean_name (Common_Name r), latin_col = clean_name (Latin_name r),
      taxid_col = Taxonomy_ID r, temp_common = None, temp_latin = None, temp_taxid = None\<rparr>"

text \<open>
  The masks are computed once, from the cleaned name columns; no later step writes
  these columns before the merge, so a mask is a predicate on the row.
\<close>

definition mask_primary :: "wrow \<Rightarrow> bool" where
  "mask_primary r = (\<not> is_invalid (common_col r))"

definition mask_fallback :: "wrow \<Rightarrow> bool" where
  "mask_fallback r = (is_invalid (common_col r) \<and> \<not> is_invalid (latin_col r))"

text \<open>The filter applied to names before a batch is built from them.\<close>

definition usable :: "string option \<Rightarrow> bool" where
  "usable name =
     (case name of
        None \<Rightarrow> False
      | Some s \<Rightarrow> \<not> is_invalid (Some s) \<and> \<not> contains ''failed'' s \<and> \<not> contains ''unrecognizable'' s)"

definition usable_values :: "dict \<Rightarrow> string list" where
  "usable_values d = filter (\<lambda>name. usable (Some name)) (map snd d)"

text \<open>Step 2: the primary workflow.\<close>

definition primary_workflow :: "env \<Rightarrow> wrow list \<Rightarrow> world \<Rightarrow> wrow list \<times> world" where
  "primary_workflow en df w =
     (if length (filter mask_primary df) > 0 then
        (let unique_common_names = present (unique (column_where mask_primary common_col df));
             (latin_map, w1) = batch_common_to_latin en unique_common_names w;
             unique_latin_names = list_of_set en (usable_values latin_map);
             (taxid_map, w2) = batch_latin_to_taxid_ete3 en unique_latin_names w1;
             df1 = assign_where mask_primary
                     (\<lambda>r. r\<lparr>temp_latin := series_map latin_map (common_col r)\<rparr>) df;
             df2 = assign_where mask_primary
                     (\<lambda>r. r\<lparr>temp_taxid := series_map taxid_map (temp_latin r)\<rparr>) df1
         in (df2, w2))
      else (df, w))"

text \<open>Step 3, parts (a) and (b) of the fallback workflow.\<close>

definition unique_latin_fallback :: "wrow list \<Rightarrow> string list" where
  "unique_latin_fallback df = present (unique (column_where mask_fallback latin_col df))"

definition failed_latin_names :: "dict \<Rightarrow> string list" where
  "failed_latin_names taxid_map_attempt1 =
     map fst (filter (\<lambda>(name, taxid). contains ''Not found'' taxid \<or> contains ''Error'' taxid)
                taxid_map_attempt1)"

definition fallback_a :: "env \<Rightarrow> wrow list \<Rightarrow> world \<Rightarrow> wrow list \<times> world" where
  "fallback_a en df w =
     (let (reverse_map, w1) = batch_latin_to_common en (unique_latin_fallback df) w
      in (assign_where mask_fallback
            (\<lambda>r. r\<lparr>temp_common := series_map reverse_map (latin_col r)\<rparr>) df, w1))"

definition fallback_b :: "env \<Rightarrow> wrow list \<Rightarrow> world \<Rightarrow> wrow list \<times> dict \<times> world" where
  "fallback_b en df w =
     (let (taxid_map_attempt1, w2) = batch_latin_to_taxid_ete3 en (unique_latin_fallback df) w;
          df1 = assign_where mask_fallback (\<lambda>r. r\<lparr>temp_latin := latin_col r\<rparr>) df;
          df2 = assign_where mask_fallback
                  (\<lambda>r. r\<lparr>temp_taxid := series_map taxid_map_attempt1 (temp_latin r)\<rparr>) df1
      in (df2, taxid_map_attempt1, w2))"

text \<open>Step 3, part (c): the second attempt, for the rows of the failed Latin names.\<close>

definition mask_attempt2 :: "string list \<Rightarrow> wrow \<Rightarrow> bool" where
  "mask_attempt2 failed r = (mask_fallback r \<and> latin_col r \<in> Some ` set failed)"

definition new_common_names :: "string list \<Rightarrow> wrow list \<Rightarrow> string list" where
  "new_common_names failed df =
     present (filter usable (unique (column_where (mask_attempt2 failed) temp_common df)))"

definition fallback_c :: "env \<Rightarrow> string list \<Rightarrow> wrow list \<Rightarrow> world \<Rightarrow> wrow list \<times> world" where
  "fallback_c en failed df w =
     (let (forward_map, w1) = batch_common_to_latin en (new_common_names failed df) w;
          new_latin_names = list_of_set en (usable_values forward_map);
          (taxid_map_attempt2, w2) = batch_latin_to_taxid_ete3 en new_latin_names w1;
          df1 = assign_where (mask_attempt2 failed)
                  (\<lambda>r. r\<lparr>temp_latin := series_map forward_map (temp_common r)\<rparr>) df;
          df2 = assign_where (mask_attempt2 failed)
                  (\<lambda>r. r\<lparr>temp_taxid := series_map taxid_map_attempt2 (temp_latin r)\<rparr>) df1
      in (df2, w2))"

definition fallback_workflow :: "env \<Rightarrow> wrow list \<Rightarrow> world \<Rightarrow> wrow list \<times> world" where
  "fallback_workflow en df w =
     (if length (filter mask_fallback df) > 0 then
        (let (df1, w1) = fallback_a en df w;
             (df2, taxid_map_attempt1, w2) = fallback_b en df1 w1;
             failed = failed_latin_names taxid_map_attempt1
         in if failed \<noteq> [] then fallback_c en failed df2 w2 else (df2, w2))
      else (df, w))"

text \<open>Step 4: the sentinel carried into \<open>temp_taxid\<close>, then the merge of the three columns.\<close>

definition sentinel_map :: dict where
  "sentinel_map = [(''unrecognizable'', ''unrecognizable''), (''GLM call failed'', ''GLM call failed'')]"

definition carry_sentinel :: "wrow \<Rightarrow> wrow" where
  "carry_sentinel r = r\<lparr>temp_taxid := fillna (temp_taxid r) (series_map sentinel_map (temp_latin r))\<rparr>"

definition merge_row :: "wrow \<Rightarrow> entry" where
  "merge_row r =
     \<lparr>Common_Name = fillna (temp_common r) (common_col r),
      Latin_name = fillna (temp_latin r) (latin_col r),
      Taxonomy_ID = fillna (temp_taxid r) (taxid_col r)\<rparr>"

text \<open>The table with its temporary columns as the workflows leave it.\<close>

definition workflows :: "env \<Rightarrow> entry list \<Rightarrow> world \<Rightarrow> wrow list \<times> world" where
  "workflows en df w =
     (let (df1, w1) = primary_workflow en (map clean_row df) w
      in fallback_workflow en df1 w1)"

text \<open>The table just before the merge of lines 267 to 273.\<close>

definition before_merge :: "env \<Rightarrow> entry list \<Rightarrow> world \<Rightarrow> wrow list" where
  "before_merge en df w = map carry_sentinel (fst (workflows en df w))"

text \<open>
  \<open>process_taxonomy_csv\<close> from the table read from the input file to the table
  written to the output file, with the trace of the run.
\<close>

definition process_taxonomy_csv :: "env \<Rightarrow> entry list \<Rightarrow> world \<Rightarrow> entry list \<times> world" where
  "process_taxonomy_csv en df w =
     (map merge_row (before_merge en df w), snd (workflows en df w))"

text \<open>The three columns of a working row that come from the input.\<close>

definition orig :: "wrow \<Rightarrow> string option \<times> string option \<times> string option" where
  "orig r = (common_col r, latin_col r, taxid_col r)"

section \<open>Row sets of the partition\<close>

text \<open>
  The rows of a table, by index, that each mask selects once the table is cleaned,
  and the rows whose two names are both invalid.
\<close>

definition rows_where :: "(wrow \<Rightarrow> bool) \<Rightarrow> entry list \<Rightarrow> nat set" where
  "rows_where msk df = set (filter (\<lambda>i. msk (clean_row (df ! i))) [0 ..< length df])"

definition both_invalid :: "wrow \<Rightarrow> bool" where
  "both_invalid r = (is_invalid (common_col r) \<and> is_invalid (latin_col r))"

text \<open>
  The two dictionaries that part (c) computes: the forward map of the usable
  recovered common names, and the identifiers of its usable Latin values.
\<close>

definition attempt2_forward_map :: "env \<Rightarrow> string list \<Rightarrow> wrow list \<Rightarrow> world \<Rightarrow> dict" where
  "attempt2_forward_map en failed df w =
     fst (batch_common_to_latin en (new_common_names failed df) w)"

definition attempt2_taxid_map :: "env \<Rightarrow> string list \<Rightarrow> wrow list \<Rightarrow> world \<Rightarrow> dict" where
  "attempt2_taxid_map en failed df w =
     fst (batch_latin_to_taxid_ete3 en
            (list_of_set en (usable_values (attempt2_forward_map en failed df w)))
            (snd (batch_common_to_latin en (new_common_names failed df) w)))"

text \<open>
  The state of the run after part (b): the table, the dictionary of the first
  attempt and the trace.
\<close>

definition attempt1 :: "env \<Rightarrow> entry list \<Rightarrow> world \<Rightarrow> wrow list \<times> dict \<times> world" where
  "attempt1 en df w =
     (let (df1, w1) = primary_workflow en (map clean_row df) w;
          (df2, w2) = fallback_a en df1 w1
      in fallback_b en df2 w2)"

text \<open>The two dictionaries of the primary workflow and the list it looks up.\<close>

definition primary_latin_map :: "env \<Rightarrow> wrow list \<Rightarrow> world \<Rightarrow> dict" where
  "primary_latin_map en df w =
     fst (batch_common_to_latin en (present (unique (column_where mask_primary common_col df))) w)"

definition primary_lookup_names :: "env \<Rightarrow> wrow list \<Rightarrow> world \<Rightarrow> string list" where
  "primary_lookup_names en df w = list_of_set en (usable_values (primary_latin_map en df w))"

definition primary_taxid_map :: "env \<Rightarrow> wrow list \<Rightarrow> world \<Rightarrow> dict" where
  "primary_taxid_map en df w =
     fst (batch_latin_to_taxid_ete3 en (primary_lookup_names en df w)
            (snd (batch_common_to_latin en
                    (present (unique (column_where mask_primary common_col df))) w)))"

section \<open>Concrete services and tables\<close>

text \<open>
  A language model that knows the cat, names \<open>Unknownus speciesus\<close> a mystery
  beast, takes the mystery beast for a cat, times out on \<open>Canis\<close> and declines
  everything else; a taxonomy database that holds the cat alone.
\<close>

definition demo_glm :: "event list \<Rightarrow> direction \<Rightarrow> string \<Rightarrow> string + string" where
  "demo_glm h d n =
     (if d = CommonToLatin \<and> n = ''cat'' then Inr '' Felis catus''
      else if d = LatinToCommon \<and> n = ''Unknownus speciesus'' then Inr ''mystery beast''
      else if d = CommonToLatin \<and> n = ''mystery beast'' then Inr ''Felis catus''
      else if d = LatinToCommon \<and> n = ''Canis'' then Inl ''timeout''
      else Inr ''unrecognizable'')"

definition demo_env :: env where
  "demo_env =
     \<lparr>glm = demo_glm,
      ncbi = (\<lambda>h ns. Inr (map_of [(''Felis catus'', [9685])])),
      set_order = id\<rparr>"

text \<open>The same language model with a taxonomy client that cannot open its archive.\<close>

definition broken_cache_env :: env where
  "broken_cache_env =
     \<lparr>glm = demo_glm,
      ncbi = (\<lambda>h ns. Inl ''could not open taxdump archive''),
      set_order = id\<rparr>"

definition start :: world where
  "start = \<lparr>events = []\<rparr>"

definition cat_table :: "entry list" where
  "cat_table = [\<lparr>Common_Name = Some ''cat*'', Latin_name = None, Taxonomy_ID = None\<rparr>]"

definition star_table :: "entry list" where
  "star_table = [\<lparr>Common_Name = Some ''*'', Latin_name = Some ''-'', Taxonomy_ID = Some ''5''\<rparr>]"

definition odd_table :: "entry list" where
  "odd_table = [\<lparr>Common_Name = Some ''zzz'', Latin_name = Some ''x'', Taxonomy_ID = Some ''5''\<rparr>]"

definition beast_table :: "entry list" where
  "beast_table = [\<lparr>Common_Name = None, Latin_name = Some ''Unknownus speciesus'', Taxonomy_ID = None\<rparr>]"

definition canis_table :: "entry list" where
  "canis_table = [\<lparr>Common_Name = None, Latin_name = Some ''Canis'', Taxonomy_ID = Some ''5''\<rparr>]"

definition felis_table :: "entry list" where
  "felis_table = [\<lparr>Common_Name = None, Latin_name = Some ''Felis catus'', Taxonomy_ID = None\<rparr>]"

text \<open>
  A table as parts (a) and (b) leave it: a fallback row whose first lookup failed, a
  fallback row whose first lookup succeeded, and a primary row that carries the Latin
  name of the first row.
\<close>

definition cascade_table :: "wrow list" where
  "cascade_table =
     [\<lparr>common_col = None, latin_col = Some ''Unknownus speciesus'', taxid_col = None,
       temp_common = Some ''mystery beast'', temp_latin = Some ''Unknownus speciesus'',
       temp_taxid = Some ''Not found: Unknownus speciesus''\<rparr>,
      \<lparr>common_col = None, latin_col = Some ''Felis catus'', taxid_col = Some ''1'',
       temp_common = Some ''unrecognizable'', temp_latin = Some ''Felis catus'',
       temp_taxid = Some ''9685''\<rparr>,
      \<lparr>common_col = Some ''cat'', latin_col = Some ''Unknownus speciesus'', taxid_col = None,
       temp_common = None, temp_latin = Some ''Felis catus'', temp_taxid = Some ''9685''\<rparr>]"

text \<open>A language model that is never reached, with the same taxonomy database.\<close>

definition failing_env :: env where
  "failing_env =
     \<lparr>glm = (\<lambda>h d n. Inl ''timeout''),
      ncbi = (\<lambda>h ns. Inr (map_of [(''Felis catus'', [9685])])),
      set_order = id\<rparr>"

section \<open>Unfolding the model on concrete input\<close>

lemmas text_defs = strip_def is_space_def lower_def lower_char_def clean_name_def is_invalid_def
  str_int_def digits.simps digit_char_def usable_def usable_values_def error_str_def

lemmas resolver_defs = glm_convert_def common_name_to_latin_def latin_to_common_name_def
  resolve_name_def batch_resolve_def batch_common_to_latin_def batch_latin_to_common_def
  log_event_def upt_rec

lemmas lookup_defs = batch_latin_to_taxid_ete3_def fill_errors_def log_event_def

lemmas table_defs = unique_def series_map_def fillna_def assign_where_def column_where_def
  present_def List.map_filter_def list_of_set_def clean_row_def mask_primary_def mask_fallback_def
  mask_attempt2_def new_common_names_def unique_latin_fallback_def failed_latin_names_def

lemmas engine_defs = primary_workflow_def fallback_a_def fallback_b_def fallback_c_def
  fallback_workflow_def sentinel_map_def carry_sentinel_def merge_row_def workflows_def
  before_merge_def process_taxonomy_csv_def

lemmas demo_defs = demo_glm_def demo_env_def broken_cache_env_def start_def

section \<open>Frame lemmas: the workflows write the temporary columns only\<close>

lemma length_assign_where [simp]: "length (assign_where m u df) = length df"
  by (simp add: assign_where_def)

lemma nth_assign_where:
  "i < length df \<Longrightarrow> assign_where m u df ! i = (if m (df ! i) then u (df ! i) else df ! i)"
  by (simp add: assign_where_def)

lemma orig_assign_where:
  "(\<And>r. orig (u r) = orig r) \<Longrightarrow> map orig (assign_where m u df) = map orig df"
  by (simp add: assign_where_def)

lemma orig_primary: "map orig (fst (primary_workflow en df w)) = map orig df"
  by (simp add: primary_workflow_def Let_def orig_assign_where orig_def split: prod.splits)

lemma orig_fallback_a: "map orig (fst (fallback_a en df w)) = map orig df"
  by (simp add: fallback_a_def Let_def orig_assign_where orig_def split: prod.splits)

lemma orig_fallback_b: "map orig (fst (fallback_b en df w)) = map orig df"
  by (simp add: fallback_b_def Let_def orig_assign_where orig_def split: prod.splits)

lemma orig_fallback_c: "map orig (fst (fallback_c en failed df w)) = map orig df"
  by (simp add: fallback_c_def Let_def orig_assign_where orig_def split: prod.splits)

lemma orig_fallback: "map orig (fst (fallback_workflow en df w)) = map orig df"
proof -
  obtain df1 w1 where a: "fallback_a en df w = (df1, w1)" by (cases "fallback_a en df w")
  obtain df2 tm w2 where b: "fallback_b en df1 w1 = (df2, tm, w2)" by (cases "fallback_b en df1 w1") auto
  have 1: "map orig df1 = map orig df" using orig_fallback_a [of en df w] a by simp
  have 2: "map orig df2 = map orig df1" using orig_fallback_b [of en df1 w1] b by simp
  have 3: "map orig (fst (fallback_c en (failed_latin_names tm) df2 w2)) = map orig df2"
    by (rule orig_fallback_c)
  show ?thesis
    using a b 1 2 3 by (simp add: fallback_workflow_def Let_def)
qed

lemma orig_workflows: "map orig (fst (workflows en df w)) = map orig (map clean_row df)"
proof -
  obtain df1 w1 where p: "primary_workflow en (map clean_row df) w = (df1, w1)"
    by (cases "primary_workflow en (map clean_row df) w")
  have 1: "map orig df1 = map orig (map clean_row df)"
    using orig_primary [of en "map clean_row df" w] by (simp only: p fst_conv)
  have 2: "map orig (fst (fallback_workflow en df1 w1)) = map orig df1"
    by (rule orig_fallback)
  have 3: "fst (workflows en df w) = fst (fallback_workflow en df1 w1)"
    by (simp add: workflows_def p)
  show ?thesis by (simp only: 1 2 3)
qed

lemma orig_carry [simp]: "orig (carry_sentinel r) = orig r"
  by (simp add: orig_def carry_sentinel_def)

lemma orig_before_merge: "map orig (before_merge en df w) = map orig (map clean_row df)"
proof -
  have "map orig (before_merge en df w) = map orig (fst (workflows en df w))"
    by (simp add: before_merge_def)
  then show ?thesis by (simp only: orig_workflows)
qed

lemma length_before_merge: "length (before_merge en df w) = length df"
  using arg_cong [OF orig_before_merge, of length] by simp

lemma orig_before_merge_nth:
  assumes "i < length df"
  shows "orig (before_merge en df w ! i) = orig (clean_row (df ! i))"
proof -
  have "map orig (before_merge en df w) ! i = map orig (map clean_row df) ! i"
    by (simp only: orig_before_merge)
  then show ?thesis using assms by (simp add: length_before_merge)
qed

lemma mask_primary_orig: "orig r = orig r' \<Longrightarrow> mask_primary r = mask_primary r'"
  by (simp add: orig_def mask_primary_def)

lemma mask_fallback_orig: "orig r = orig r' \<Longrightarrow> mask_fallback r = mask_fallback r'"
  by (simp add: orig_def mask_fallback_def)

lemma map_orig_length: "map orig xs = map orig ys \<Longrightarrow> length xs = length ys"
  using map_eq_imp_length_eq by blast

lemma map_orig_nth: "map orig xs = map orig ys \<Longrightarrow> i < length ys \<Longrightarrow> orig (xs ! i) = orig (ys ! i)"
  by (metis length_map nth_map)

lemma length_primary [simp]: "length (fst (primary_workflow en df w)) = length df"
  using map_orig_length [OF orig_primary] .

lemma length_fallback_a [simp]: "length (fst (fallback_a en df w)) = length df"
  using map_orig_length [OF orig_fallback_a] .

lemma length_fallback_b [simp]: "length (fst (fallback_b en df w)) = length df"
  using map_orig_length [OF orig_fallback_b] .

lemma length_fallback_c [simp]: "length (fst (fallback_c en failed df w)) = length df"
  using map_orig_length [OF orig_fallback_c] .

lemma length_fallback [simp]: "length (fst (fallback_workflow en df w)) = length df"
  using map_orig_length [OF orig_fallback] .

lemma mask_primary_temp [simp]:
  "mask_primary (r\<lparr>temp_common := a\<rparr>) = mask_primary r"
  "mask_primary (r\<lparr>temp_latin := b\<rparr>) = mask_primary r"
  "mask_primary (r\<lparr>temp_taxid := c\<rparr>) = mask_primary r"
  by (simp_all add: mask_primary_def)

lemma mask_fallback_temp [simp]:
  "mask_fallback (r\<lparr>temp_common := a\<rparr>) = mask_fallback r"
  "mask_fallback (r\<lparr>temp_latin := b\<rparr>) = mask_fallback r"
  "mask_fallback (r\<lparr>temp_taxid := c\<rparr>) = mask_fallback r"
  by (simp_all add: mask_fallback_def)

lemma mask_attempt2_temp [simp]:
  "mask_attempt2 failed (r\<lparr>temp_common := a\<rparr>) = mask_attempt2 failed r"
  "mask_attempt2 failed (r\<lparr>temp_latin := b\<rparr>) = mask_attempt2 failed r"
  "mask_attempt2 failed (r\<lparr>temp_taxid := c\<rparr>) = mask_attempt2 failed r"
  by (simp_all add: mask_attempt2_def)

lemma primary_keeps_row:
  "i < length df \<Longrightarrow> \<not> mask_primary (df ! i) \<Longrightarrow> fst (primary_workflow en df w) ! i = df ! i"
  by (simp add: primary_workflow_def Let_def nth_assign_where split: prod.splits)

lemma fallback_a_keeps_row:
  "i < length df \<Longrightarrow> \<not> mask_fallback (df ! i) \<Longrightarrow> fst (fallback_a en df w) ! i = df ! i"
  by (simp add: fallback_a_def Let_def nth_assign_where split: prod.splits)

lemma fallback_b_keeps_row:
  "i < length df \<Longrightarrow> \<not> mask_fallback (df ! i) \<Longrightarrow> fst (fallback_b en df w) ! i = df ! i"
  by (simp add: fallback_b_def Let_def nth_assign_where split: prod.splits)

lemma fallback_c_keeps_row:
  "i < length df \<Longrightarrow> \<not> mask_attempt2 failed (df ! i) \<Longrightarrow> fst (fallback_c en failed df w) ! i = df ! i"
  by (simp add: fallback_c_def Let_def nth_assign_where split: prod.splits)

lemma fallback_keeps_row:
  assumes "i < length df" and "\<not> mask_fallback (df ! i)"
  shows "fst (fallback_workflow en df w) ! i = df ! i"
proof -
  obtain df1 w1 where a: "fallback_a en df w = (df1, w1)" by (cases "fallback_a en df w")
  obtain df2 tm w2 where b: "fallback_b en df1 w1 = (df2, tm, w2)"
    by (cases "fallback_b en df1 w1") auto
  have l1: "length df1 = length df" using length_fallback_a [of en df w] by (simp add: a)
  have r1: "df1 ! i = df ! i" using fallback_a_keeps_row [OF assms, of en w] by (simp add: a)
  have l2: "length df2 = length df" using length_fallback_b [of en df1 w1] by (simp add: b l1)
  have r2: "df2 ! i = df ! i"
    using fallback_b_keeps_row [of i df1 en w1] assms l1 r1 by (simp add: b)
  have r3: "fst (fallback_c en (failed_latin_names tm) df2 w2) ! i = df ! i"
    using fallback_c_keeps_row [of i df2 "failed_latin_names tm" en w2] assms l2 r2
    by (simp add: mask_attempt2_def)
  show ?thesis
    using a b r2 r3 by (simp add: fallback_workflow_def Let_def)
qed

lemma workflows_keeps_row:
  assumes "i < length df"
    and "\<not> mask_primary (clean_row (df ! i))" and "\<not> mask_fallback (clean_row (df ! i))"
  shows "fst (workflows en df w) ! i = clean_row (df ! i)"
proof -
  obtain df1 w1 where p: "primary_workflow en (map clean_row df) w = (df1, w1)"
    by (cases "primary_workflow en (map clean_row df) w")
  have l1: "length df1 = length df"
    using length_primary [of en "map clean_row df" w] by (simp add: p)
  have r1: "df1 ! i = clean_row (df ! i)"
    using primary_keeps_row [of i "map clean_row df" en w] assms by (simp add: p)
  have "fst (fallback_workflow en df1 w1) ! i = df1 ! i"
    using fallback_keeps_row [of i df1 en w1] assms l1 r1 by simp
  then show ?thesis using r1 by (simp add: workflows_def p)
qed

section \<open>Lemmas on part (c) and on the error branch of the lookup\<close>

lemma fallback_c_row:
  assumes "i < length df"
  shows "fst (fallback_c en failed df w) ! i =
    (if mask_attempt2 failed (df ! i)
     then (df ! i)\<lparr>temp_latin := series_map (attempt2_forward_map en failed df w) (temp_common (df ! i)),
                   temp_taxid := series_map (attempt2_taxid_map en failed df w)
                     (series_map (attempt2_forward_map en failed df w) (temp_common (df ! i)))\<rparr>
     else df ! i)"
  using assms
  by (simp add: fallback_c_def attempt2_forward_map_def attempt2_taxid_map_def Let_def
      nth_assign_where split: prod.splits)

lemma map_of_fill_errors:
  "map_of (fill_errors err names m) n =
     (case map_of m n of Some v \<Rightarrow> Some v | None \<Rightarrow> if n \<in> set names then Some err else None)"
proof (induction names arbitrary: m)
  case Nil
  then show ?case by (simp add: fill_errors_def split: option.splits)
next
  case (Cons a names)
  have step: "fill_errors err (a # names) m =
      fill_errors err names (if map_of m a = None then AList.update a err m else m)"
    by (simp add: fill_errors_def)
  show ?case
    unfolding step Cons.IH
    by (auto simp add: update_conv' split: option.splits)
qed

lemma keys_fill_errors:
  "fst ` set (fill_errors err names m) = fst ` set m \<union> set names"
proof (induction names arbitrary: m)
  case Nil
  then show ?case by (simp add: fill_errors_def)
next
  case (Cons a names)
  have step: "fill_errors err (a # names) m =
      fill_errors err names (if map_of m a = None then AList.update a err m else m)"
    by (simp add: fill_errors_def)
  have "map_of m a \<noteq> None \<Longrightarrow> a \<in> fst ` set m"
    by (auto simp add: map_of_eq_None_iff)
  then show ?case
    unfolding step Cons.IH
    by (auto simp add: dom_update)
qed

section \<open>Lemmas on the batch resolver\<close>

lemma snd_glm_convert [simp]: "snd (glm_convert en d name w) = log_event (OracleCall d name) w"
  by (simp add: glm_convert_def Let_def split: sum.splits)

lemma events_log_event [simp]: "events (log_event e w) = events w @ [e]"
  by (simp add: log_event_def)

lemma attempts_exhausted:
  assumes "\<And>w. contains ''GLM call failed'' (fst (glm_convert en d name w))"
  shows "attempts en d name rest w =
    (None, w\<lparr>events := events w @ concat (map (\<lambda>i. [OracleCall d name, Sleep (2 * (i + 1))]) rest)\<rparr>)"
proof (induction rest arbitrary: w)
  case Nil
  then show ?case by simp
next
  case (Cons i rest)
  obtain res w1 where g: "glm_convert en d name w = (res, w1)" by (cases "glm_convert en d name w")
  have f: "contains ''GLM call failed'' res" using assms [of w] g by simp
  have w1: "w1 = log_event (OracleCall d name) w" using snd_glm_convert [of en d name w] g by simp
  show ?case
    by (simp add: g f Cons.IH w1 log_event_def)
qed

lemma resolve_name_exhausted:
  assumes "\<And>w. contains ''GLM call failed'' (fst (glm_convert en d name w))"
  shows "resolve_name en d name (m, w) =
    (AList.update name ''GLM call failed'' m,
     w\<lparr>events := events w @ [OracleCall d name, Sleep 2, OracleCall d name, Sleep 4,
                               OracleCall d name, Sleep 6]\<rparr>)"
proof -
  have r: "[0 ..< 3] = [0, 1, 2::nat]" by (simp add: upt_rec)
  show ?thesis
    by (simp add: resolve_name_def r attempts_exhausted [OF assms] del: attempts.simps)
qed

lemma batch_resolve_fold: "batch_resolve en d names w = fold (resolve_name en d) names ([], w)"
  by (simp add: batch_resolve_def)

lemma keys_resolve_name: "fst ` set (fst (resolve_name en d name st)) = insert name (fst ` set (fst st))"
  by (cases st) (simp add: resolve_name_def dom_update split: prod.splits option.splits)

lemma keys_fold_resolve:
  "fst ` set (fst (fold (resolve_name en d) names st)) = fst ` set (fst st) \<union> set names"
  by (induction names arbitrary: st) (auto simp add: keys_resolve_name)

lemma distinct_resolve_name:
  "distinct (map fst (fst st)) \<Longrightarrow> distinct (map fst (fst (resolve_name en d name st)))"
  by (cases st) (simp add: resolve_name_def distinct_update split: prod.splits option.splits)

lemma distinct_fold_resolve:
  "distinct (map fst (fst st)) \<Longrightarrow> distinct (map fst (fst (fold (resolve_name en d) names st)))"
  by (induction names arbitrary: st) (auto simp add: distinct_resolve_name)

lemma resolve_name_other:
  "k \<noteq> name \<Longrightarrow> map_of (fst (resolve_name en d name st)) k = map_of (fst st) k"
  by (cases st) (simp add: resolve_name_def update_conv' split: prod.splits option.splits)

lemma fold_keeps_failed:
  assumes "\<And>w. contains ''GLM call failed'' (fst (glm_convert en d name w))"
    and "map_of (fst st) name = Some ''GLM call failed''"
  shows "map_of (fst (fold (resolve_name en d) ys st)) name = Some ''GLM call failed''"
  using assms(2)
proof (induction ys arbitrary: st)
  case Nil
  then show ?case by simp
next
  case (Cons y ys)
  have "map_of (fst (resolve_name en d y st)) name = Some ''GLM call failed''"
  proof (cases "y = name")
    case True
    obtain m w where st: "st = (m, w)" by (cases st)
    show ?thesis
      by (simp add: True st resolve_name_exhausted [OF assms(1)] update_conv')
  next
    case False
    then show ?thesis using Cons.prems by (simp add: resolve_name_other)
  qed
  then show ?case using Cons.IH by simp
qed

lemma attempts_calls_upper:
  "count_list (events (snd (attempts en d name rest w))) (OracleCall d' n')
     \<le> count_list (events w) (OracleCall d' n') + (if d' = d \<and> n' = name then length rest else 0)"
proof (induction rest arbitrary: w)
  case Nil
  then show ?case by simp
next
  case (Cons i rest)
  obtain res w1 where g: "glm_convert en d name w = (res, w1)" by (cases "glm_convert en d name w")
  have w1: "w1 = log_event (OracleCall d name) w" using snd_glm_convert [of en d name w] g by simp
  have "count_list (events (snd (attempts en d name rest (log_event (Sleep (2 * (i + 1))) w1))))
          (OracleCall d' n')
        \<le> count_list (events (log_event (Sleep (2 * (i + 1))) w1)) (OracleCall d' n')
            + (if d' = d \<and> n' = name then length rest else 0)"
    by (rule Cons.IH)
  then show ?case
    by (auto simp add: g w1)
qed

lemma attempts_calls_lower:
  "count_list (events w) (OracleCall d' n') + (if d' = d \<and> n' = name \<and> rest \<noteq> [] then 1 else 0)
     \<le> count_list (events (snd (attempts en d name rest w))) (OracleCall d' n')"
proof (induction rest arbitrary: w)
  case Nil
  then show ?case by simp
next
  case (Cons i rest)
  obtain res w1 where g: "glm_convert en d name w = (res, w1)" by (cases "glm_convert en d name w")
  have w1: "w1 = log_event (OracleCall d name) w" using snd_glm_convert [of en d name w] g by simp
  have "count_list (events (log_event (Sleep (2 * (i + 1))) w1)) (OracleCall d' n')
            + (if d' = d \<and> n' = name \<and> rest \<noteq> [] then 1 else 0)
        \<le> count_list (events (snd (attempts en d name rest (log_event (Sleep (2 * (i + 1))) w1))))
          (OracleCall d' n')"
    by (rule Cons.IH)
  then show ?case
    by (auto simp add: g w1 split: if_splits)
qed

lemma resolve_name_calls:
  "count_list (events (snd st)) (OracleCall d n) + (if a = n then 1 else 0)
     \<le> count_list (events (snd (resolve_name en d a st))) (OracleCall d n)
   \<and> count_list (events (snd (resolve_name en d a st))) (OracleCall d n)
     \<le> count_list (events (snd st)) (OracleCall d n) + (if a = n then 3 else 0)"
proof -
  define rest where "rest = [0 ..< 3::nat]"
  have l: "length rest = 3" and ne: "rest \<noteq> []" by (simp_all add: rest_def)
  have s: "snd (resolve_name en d a st) = snd (attempts en d a rest (snd st))"
    by (cases st) (simp add: resolve_name_def rest_def [symmetric] split: prod.splits option.splits)
  show ?thesis
    unfolding s
    using attempts_calls_upper [of en d a rest "snd st" d n]
      attempts_calls_lower [of "snd st" d n d a rest en] l ne
    by (auto split: if_splits)
qed

lemma fold_resolve_calls:
  "count_list (events (snd st)) (OracleCall d n) + count_list names n
     \<le> count_list (events (snd (fold (resolve_name en d) names st))) (OracleCall d n)
   \<and> count_list (events (snd (fold (resolve_name en d) names st))) (OracleCall d n)
     \<le> count_list (events (snd st)) (OracleCall d n) + 3 * count_list names n"
proof (induction names arbitrary: st)
  case Nil
  then show ?case by simp
next
  case (Cons a names)
  show ?case
    using Cons.IH [of "resolve_name en d a st"] resolve_name_calls [of st d n a en]
    by (auto split: if_splits)
qed

section \<open>Lemmas on the run up to part (c)\<close>

lemma set_present: "n \<in> set (present vs) \<longleftrightarrow> Some n \<in> set vs"
  by (induction vs) (auto simp add: present_def List.map_filter_def)

lemma new_common_names_usable: "n \<in> set (new_common_names failed df) \<Longrightarrow> usable (Some n)"
  by (simp add: new_common_names_def set_present)

lemma keys_batch_resolve: "fst ` set (fst (batch_resolve en d names w)) = set names"
  by (simp add: batch_resolve_fold keys_fold_resolve)

lemma map_of_absent: "k \<notin> fst ` set m \<Longrightarrow> map_of m k = None"
  by (simp add: map_of_eq_None_iff)

lemma forward_map_unusable:
  assumes "\<not> usable v"
  shows "series_map (attempt2_forward_map en failed df w) v = None"
proof (cases v)
  case None
  then show ?thesis by (simp add: series_map_def)
next
  case (Some s)
  have "s \<notin> set (new_common_names failed df)"
    using assms Some new_common_names_usable by blast
  then have "s \<notin> fst ` set (attempt2_forward_map en failed df w)"
    by (simp add: attempt2_forward_map_def batch_common_to_latin_def keys_batch_resolve)
  then show ?thesis
    by (simp add: Some series_map_def map_of_absent)
qed

lemma attempt1_orig: "map orig (fst (attempt1 en df w)) = map orig (map clean_row df)"
proof -
  obtain df1 w1 where p: "primary_workflow en (map clean_row df) w = (df1, w1)"
    by (cases "primary_workflow en (map clean_row df) w")
  obtain df2 w2 where a: "fallback_a en df1 w1 = (df2, w2)" by (cases "fallback_a en df1 w1")
  have 1: "map orig df1 = map orig (map clean_row df)"
    using orig_primary [of en "map clean_row df" w] by (simp only: p fst_conv)
  have 2: "map orig df2 = map orig df1"
    using orig_fallback_a [of en df1 w1] by (simp only: a fst_conv)
  have 3: "map orig (fst (fallback_b en df2 w2)) = map orig df2"
    by (rule orig_fallback_b)
  have 4: "attempt1 en df w = fallback_b en df2 w2"
    by (simp add: attempt1_def p a)
  show ?thesis by (simp only: 1 2 3 4)
qed

lemma filter_nonempty: "i < length xs \<Longrightarrow> P (xs ! i) \<Longrightarrow> 0 < length (filter P xs)"
  by (metis filter_empty_conv length_greater_0_conv nth_mem)

lemma workflows_attempt2:
  assumes "i < length df" and "mask_fallback (clean_row (df ! i))"
    and "failed_latin_names (fst (snd (attempt1 en df w))) \<noteq> []"
  shows "fst (workflows en df w) =
    fst (fallback_c en (failed_latin_names (fst (snd (attempt1 en df w))))
          (fst (attempt1 en df w)) (snd (snd (attempt1 en df w))))"
proof -
  obtain df1 w1 where p: "primary_workflow en (map clean_row df) w = (df1, w1)"
    by (cases "primary_workflow en (map clean_row df) w")
  obtain df2 w2 where a: "fallback_a en df1 w1 = (df2, w2)" by (cases "fallback_a en df1 w1")
  obtain df3 tm w3 where b: "fallback_b en df2 w2 = (df3, tm, w3)"
    by (cases "fallback_b en df2 w2") auto
  have o1: "map orig df1 = map orig (map clean_row df)"
    using orig_primary [of en "map clean_row df" w] by (simp only: p fst_conv)
  have l1: "i < length df1" using map_orig_length [OF o1] assms(1) by simp
  have "orig (df1 ! i) = orig (map clean_row df ! i)"
    using map_orig_nth [OF o1, of i] assms(1) by simp
  then have "mask_fallback (df1 ! i)"
    using mask_fallback_orig [of "df1 ! i" "clean_row (df ! i)"] assms(1,2) by simp
  then have f: "0 < length (filter mask_fallback df1)"
    using l1 filter_nonempty by blast
  have at: "attempt1 en df w = (df3, tm, w3)"
    by (simp add: attempt1_def p a b)
  have "fst (workflows en df w) = fst (fallback_c en (failed_latin_names tm) df3 w3)"
    using assms(3) f by (simp add: workflows_def p fallback_workflow_def a b at Let_def)
  then show ?thesis by (simp add: at)
qed

section \<open>Lemmas on the primary workflow and on the lookup\<close>

lemma attempts_ok:
  assumes "fst (glm_convert en d c w) = v" and "\<not> contains ''GLM call failed'' v"
  shows "attempts en d c (i # rest) w = (Some v, log_event (OracleCall d c) w)"
proof -
  obtain res w1 where g: "glm_convert en d c w = (res, w1)" by (cases "glm_convert en d c w")
  have 1: "res = v" using assms(1) g by simp
  have 2: "w1 = log_event (OracleCall d c) w" using snd_glm_convert [of en d c w] g by simp
  show ?thesis using assms(2) 1 2 by (simp add: g)
qed

lemma resolve_name_ok:
  assumes "\<And>w. fst (glm_convert en d c w) = v" and "\<not> contains ''GLM call failed'' v"
  shows "fst (resolve_name en d c st) = AList.update c v (fst st)"
proof -
  have r: "[0 ..< 3] = 0 # [1, 2::nat]" by (simp add: upt_rec)
  show ?thesis
    by (cases st)
      (simp add: resolve_name_def r attempts_ok [OF assms(1) assms(2)] del: attempts.simps)
qed

lemma fold_resolves:
  assumes "\<And>w. fst (glm_convert en d c w) = v" and "\<not> contains ''GLM call failed'' v"
    and "c \<in> set names \<or> map_of (fst st) c = Some v"
  shows "map_of (fst (fold (resolve_name en d) names st)) c = Some v"
  using assms(3)
proof (induction names arbitrary: st)
  case Nil
  then show ?case by simp
next
  case (Cons a names)
  have "c \<in> set names \<or> map_of (fst (resolve_name en d a st)) c = Some v"
  proof (cases "a = c")
    case True
    then show ?thesis by (simp add: resolve_name_ok [OF assms(1,2)] update_conv')
  next
    case False
    then show ?thesis using Cons.prems by (auto simp add: resolve_name_other)
  qed
  then show ?case using Cons.IH by simp
qed

lemma keys_taxid_loop_ok:
  "taxid_loop raw ns m = Inr m' \<Longrightarrow> fst ` set m' = fst ` set m \<union> set ns"
proof (induction ns arbitrary: m)
  case Nil
  then show ?case by simp
next
  case (Cons n ns)
  then show ?case
    by (cases "raw n") (auto simp add: dom_update split: list.splits)
qed

lemma keys_taxid_loop_raise:
  "taxid_loop raw ns m = Inl (m', e) \<Longrightarrow> fst ` set m' \<subseteq> fst ` set m \<union> set ns"
proof (induction ns arbitrary: m)
  case Nil
  then show ?case by simp
next
  case (Cons n ns)
  show ?case
  proof (cases "raw n")
    case None
    then have "fst ` set m' \<subseteq> fst ` set (AList.update n (''Not found: '' @ [CHR 0x27] @ n @ [CHR 0x27]) m) \<union> set ns"
      using Cons.prems Cons.IH by simp
    then show ?thesis by (auto simp add: dom_update)
  next
    case (Some ts)
    show ?thesis
    proof (cases ts)
      case Nil
      then show ?thesis using Cons.prems Some by auto
    next
      case (Cons t ts')
      then have "fst ` set m' \<subseteq> fst ` set (AList.update n (str_int t) m) \<union> set ns"
        using Cons.prems Cons.IH Some by simp
      then show ?thesis by (auto simp add: dom_update)
    qed
  qed
qed

lemma keys_batch_taxid:
  "fst ` set (fst (batch_latin_to_taxid_ete3 en names w)) = set names"
proof (cases "names = []")
  case True
  then show ?thesis by (simp add: batch_latin_to_taxid_ete3_def)
next
  case False
  show ?thesis
  proof (cases "ncbi en (events w) names")
    case (Inl e)
    then show ?thesis
      using False by (simp add: batch_latin_to_taxid_ete3_def Let_def keys_fill_errors)
  next
    case (Inr raw)
    show ?thesis
    proof (cases "taxid_loop raw names []")
      case (Inl p)
      obtain m e where p: "p = (m, e)" by (cases p)
      have "fst ` set m \<subseteq> set names"
        using keys_taxid_loop_raise [of raw names "[]" m e] Inl p by simp
      then show ?thesis
        using False Inr Inl p
        by (auto simp add: batch_latin_to_taxid_ete3_def Let_def keys_fill_errors)
    next
      case (Inr m)
      have "fst ` set m = set names"
        using keys_taxid_loop_ok [of raw names "[]" m] Inr by simp
      then show ?thesis
        using False \<open>ncbi en (events w) names = Inr raw\<close> Inr
        by (simp add: batch_latin_to_taxid_ete3_def Let_def)
    qed
  qed
qed

lemma events_batch_taxid:
  "events (snd (batch_latin_to_taxid_ete3 en names w))
     = events w @ (if names = [] then [] else [Lookup names])"
  by (simp add: batch_latin_to_taxid_ete3_def Let_def split: sum.splits prod.splits)

lemma no_lookup_attempts:
  "Lookup ns \<in> set (events (snd (attempts en d name rest w))) \<longleftrightarrow> Lookup ns \<in> set (events w)"
proof (induction rest arbitrary: w)
  case Nil
  then show ?case by simp
next
  case (Cons i rest)
  obtain res w1 where g: "glm_convert en d name w = (res, w1)" by (cases "glm_convert en d name w")
  have w1: "w1 = log_event (OracleCall d name) w" using snd_glm_convert [of en d name w] g by simp
  show ?case
    using Cons.IH [of "log_event (Sleep (2 * (i + 1))) w1"]
    by (simp add: g w1)
qed

lemma no_lookup_resolve_name:
  "Lookup ns \<in> set (events (snd (resolve_name en d a st))) \<longleftrightarrow> Lookup ns \<in> set (events (snd st))"
proof -
  define rest where "rest = [0 ..< 3::nat]"
  have s: "snd (resolve_name en d a st) = snd (attempts en d a rest (snd st))"
    by (cases st) (simp add: resolve_name_def rest_def [symmetric] split: prod.splits option.splits)
  show ?thesis unfolding s by (rule no_lookup_attempts)
qed

lemma no_lookup_batch_resolve:
  "Lookup ns \<in> set (events (snd (batch_resolve en d names w))) \<longleftrightarrow> Lookup ns \<in> set (events w)"
proof -
  have "Lookup ns \<in> set (events (snd (fold (resolve_name en d) names st)))
      \<longleftrightarrow> Lookup ns \<in> set (events (snd st))" for st
    by (induction names arbitrary: st) (simp_all add: no_lookup_resolve_name)
  then show ?thesis by (simp add: batch_resolve_fold)
qed

lemma set_unique_from: "set (unique_from seen xs) = set xs - set seen"
  by (induction xs arbitrary: seen) auto

lemma set_unique: "set (unique xs) = set xs"
  by (simp add: unique_def set_unique_from)

lemma primary_row:
  assumes "i < length df" and "mask_primary (df ! i)"
  shows "fst (primary_workflow en df w) ! i =
    (df ! i)\<lparr>temp_latin := series_map (primary_latin_map en df w) (common_col (df ! i)),
              temp_taxid := series_map (primary_taxid_map en df w)
                (series_map (primary_latin_map en df w) (common_col (df ! i)))\<rparr>"
proof -
  have f: "0 < length (filter mask_primary df)" using assms filter_nonempty by blast
  show ?thesis
    using assms f
    by (simp add: primary_workflow_def primary_latin_map_def primary_lookup_names_def
        primary_taxid_map_def Let_def nth_assign_where split: prod.splits)
qed

lemma primary_lookups:
  assumes "Lookup ns \<in> set (events (snd (primary_workflow en df w)))"
  shows "Lookup ns \<in> set (events w) \<or> ns = primary_lookup_names en df w"
proof (cases "0 < length (filter mask_primary df)")
  case False
  then show ?thesis using assms by (simp add: primary_workflow_def)
next
  case True
  let ?names = "present (unique (column_where mask_primary common_col df))"
  obtain lm w1 where b: "batch_common_to_latin en ?names w = (lm, w1)"
    by (cases "batch_common_to_latin en ?names w")
  have w1: "Lookup ns \<in> set (events w1) \<longleftrightarrow> Lookup ns \<in> set (events w)"
    using no_lookup_batch_resolve [of ns en CommonToLatin ?names w] b
    by (simp add: batch_common_to_latin_def)
  have s: "snd (primary_workflow en df w) =
      snd (batch_latin_to_taxid_ete3 en (primary_lookup_names en df w) w1)"
    using True
    by (simp add: primary_workflow_def primary_lookup_names_def primary_latin_map_def b Let_def
        split: prod.splits)
  show ?thesis
    using assms w1 unfolding s events_batch_taxid by (auto split: if_splits)
qed

lemma unusable_not_looked_up:
  assumes "\<And>xs. set (set_order en xs) = set xs" and "\<not> usable (Some s)"
  shows "s \<notin> set (list_of_set en (usable_values m))"
  using assms by (simp add: list_of_set_def usable_values_def)

lemma carry_sentinel_taxid:
  assumes "temp_latin r = Some s" and "s = ''unrecognizable'' \<or> s = ''GLM call failed''"
    and "temp_taxid r = None"
  shows "temp_taxid (carry_sentinel r) = Some s"
  using assms by (auto simp add: carry_sentinel_def fillna_def series_map_def sentinel_map_def)

lemma primary_unrecognizable_row:
  assumes i: "i < length df"
    and p: "mask_primary (df ! i)"
    and c: "common_col (df ! i) = Some c"
    and o: "\<And>w. fst (common_name_to_latin en c w) = ''unrecognizable''"
    and so: "\<And>xs. set (set_order en xs) = set xs"
  shows "fst (primary_workflow en df w) ! i =
    (df ! i)\<lparr>temp_latin := Some ''unrecognizable'', temp_taxid := None\<rparr>"
proof -
  let ?names = "present (unique (column_where mask_primary common_col df))"
  have "Some c \<in> set (column_where mask_primary common_col df)"
    using i p c by (force simp add: column_where_def in_set_conv_nth)
  then have cn: "c \<in> set ?names" by (simp add: set_present set_unique)
  have g: "\<And>w. fst (glm_convert en CommonToLatin c w) = ''unrecognizable''"
    using o by (simp add: common_name_to_latin_def)
  have nf: "\<not> contains ''GLM call failed'' ''unrecognizable''" by simp
  have lm: "map_of (primary_latin_map en df w) c = Some ''unrecognizable''"
    using fold_resolves [OF g nf, of ?names "([], w)"] cn
    by (simp add: primary_latin_map_def batch_common_to_latin_def batch_resolve_fold)
  have nu: "\<not> usable (Some ''unrecognizable'')" by (simp add: usable_def)
  have "''unrecognizable'' \<notin> set (primary_lookup_names en df w)"
    unfolding primary_lookup_names_def using so nu by (rule unusable_not_looked_up)
  then have "''unrecognizable'' \<notin> fst ` set (primary_taxid_map en df w)"
    by (simp add: primary_taxid_map_def keys_batch_taxid)
  then have tm: "map_of (primary_taxid_map en df w) ''unrecognizable'' = None"
    by (rule map_of_absent)
  show ?thesis
    using primary_row [OF i p, of en w] by (simp add: c series_map_def lm tm)
qed

lemma workflows_unrecognizable_row:
  assumes i: "i < length df"
    and p: "mask_primary (clean_row (df ! i))"
    and c: "clean_name (Common_Name (df ! i)) = Some c"
    and o: "\<And>w. fst (common_name_to_latin en c w) = ''unrecognizable''"
    and so: "\<And>xs. set (set_order en xs) = set xs"
  shows "fst (workflows en df w) ! i =
    (clean_row (df ! i))\<lparr>temp_latin := Some ''unrecognizable'', temp_taxid := None\<rparr>"
proof -
  obtain df1 w1 where pw: "primary_workflow en (map clean_row df) w = (df1, w1)"
    by (cases "primary_workflow en (map clean_row df) w")
  have i': "i < length (map clean_row df)" using i by simp
  have p': "mask_primary (map clean_row df ! i)" using i p by simp
  have c': "common_col (map clean_row df ! i) = Some c" using i c by (simp add: clean_row_def)
  have r1: "df1 ! i = (clean_row (df ! i))\<lparr>temp_latin := Some ''unrecognizable'', temp_taxid := None\<rparr>"
    using primary_unrecognizable_row [OF i' p' c' o so, of w] i by (simp add: pw)
  have l1: "i < length df1"
    using length_primary [of en "map clean_row df" w] i by (simp add: pw)
  have nf: "\<not> mask_fallback (df1 ! i)"
    using p by (simp add: r1 mask_fallback_def mask_primary_def)
  have "fst (workflows en df w) ! i = df1 ! i"
    using fallback_keeps_row [OF l1 nf, of en w1] by (simp add: workflows_def pw)
  then show ?thesis by (simp add: r1)
qed

lemma primary_lookup_excludes:
  assumes "\<And>xs. set (set_order en xs) = set xs"
    and "Lookup ns \<in> set (events (snd (primary_workflow en df w)))"
  shows "Lookup ns \<in> set (events w) \<or> ''unrecognizable'' \<notin> set ns"
proof -
  have nu: "\<not> usable (Some ''unrecognizable'')" by (simp add: usable_def)
  have nl: "''unrecognizable'' \<notin> set (primary_lookup_names en df w)"
    unfolding primary_lookup_names_def using assms(1) nu by (rule unusable_not_looked_up)
  show ?thesis using primary_lookups [OF assms(2)] nl by blast
qed

lemma process_row:
  assumes "j < length df"
  shows "before_merge en df w ! j = carry_sentinel (fst (workflows en df w) ! j)"
    and "fst (process_taxonomy_csv en df w) ! j
      = merge_row (carry_sentinel (fst (workflows en df w) ! j))"
proof -
  have lw: "length (fst (workflows en df w)) = length df"
    using length_before_merge [of en df w] by (simp add: before_merge_def)
  show "before_merge en df w ! j = carry_sentinel (fst (workflows en df w) ! j)"
    using assms lw by (simp add: before_merge_def)
  show "fst (process_taxonomy_csv en df w) ! j
      = merge_row (carry_sentinel (fst (workflows en df w) ! j))"
    using assms lw by (simp add: process_taxonomy_csv_def before_merge_def)
qed

section \<open>Lemmas on the lists the engine passes and on the requests of a run\<close>

lemma resolve_name_calls_any:
  "count_list (events (snd (resolve_name en d a st))) (OracleCall d' n)
     \<le> count_list (events (snd st)) (OracleCall d' n) + (if d' = d \<and> a = n then 3 else 0)"
proof -
  define rest where "rest = [0 ..< 3::nat]"
  have l: "length rest = 3" by (simp add: rest_def)
  have s: "snd (resolve_name en d a st) = snd (attempts en d a rest (snd st))"
    by (cases st) (simp add: resolve_name_def rest_def [symmetric] split: prod.splits option.splits)
  show ?thesis
    unfolding s
    using attempts_calls_upper [of en d a rest "snd st" d' n] l
    by (auto split: if_splits)
qed

lemma fold_calls_any:
  "count_list (events (snd (fold (resolve_name en d) names st))) (OracleCall d' n)
     \<le> count_list (events (snd st)) (OracleCall d' n)
         + (if d' = d then 3 * count_list names n else 0)"
proof (induction names arbitrary: st)
  case Nil
  then show ?case by simp
next
  case (Cons a names)
  show ?case
    using Cons.IH [of "resolve_name en d a st"] resolve_name_calls_any [of en d a st d' n]
    by (auto split: if_splits)
qed

lemma count_list_distinct: "distinct xs \<Longrightarrow> count_list xs x \<le> 1"
  by (induction xs) (auto simp add: count_list_0_iff)

lemma batch_calls_distinct:
  assumes "distinct names"
  shows "count_list (events (snd (batch_resolve en d names w))) (OracleCall d' n)
     \<le> count_list (events w) (OracleCall d' n) + (if d' = d then 3 else 0)"
proof -
  have "3 * count_list names n \<le> 3" using count_list_distinct [OF assms, of n] by simp
  then show ?thesis
    using fold_calls_any [of en d names "([], w)" d' n]
    by (auto simp add: batch_resolve_fold split: if_splits)
qed

lemma distinct_unique_from: "distinct (unique_from seen xs)"
  by (induction xs arbitrary: seen) (auto simp add: set_unique_from)

lemma distinct_unique: "distinct (unique xs)"
  by (simp add: unique_def distinct_unique_from)

lemma present_Cons:
  "present (v # vs) = (case v of None \<Rightarrow> present vs | Some x \<Rightarrow> x # present vs)"
  by (simp add: present_def List.map_filter_simps split: option.splits)

lemma distinct_present: "distinct vs \<Longrightarrow> distinct (present vs)"
proof (induction vs)
  case Nil
  then show ?case by (simp add: present_def List.map_filter_simps)
next
  case (Cons v vs)
  then show ?case
    by (cases v) (auto simp add: present_Cons set_present)
qed

lemma distinct_primary_names:
  "distinct (present (unique (column_where mask_primary common_col df)))"
  by (simp add: distinct_present distinct_unique)

lemma distinct_unique_latin_fallback: "distinct (unique_latin_fallback df)"
  by (simp add: unique_latin_fallback_def distinct_present distinct_unique)

lemma distinct_new_common_names: "distinct (new_common_names failed df)"
  by (simp add: new_common_names_def distinct_present distinct_unique)

lemma count_batch_taxid:
  "count_list (events (snd (batch_latin_to_taxid_ete3 en names w))) (OracleCall d n)
     = count_list (events w) (OracleCall d n)"
  by (simp add: events_batch_taxid)

lemma primary_calls:
  "count_list (events (snd (primary_workflow en df w))) (OracleCall d' n)
     \<le> count_list (events w) (OracleCall d' n) + (if d' = CommonToLatin then 3 else 0)"
proof (cases "0 < length (filter mask_primary df)")
  case False
  then show ?thesis by (simp add: primary_workflow_def)
next
  case True
  let ?names = "present (unique (column_where mask_primary common_col df))"
  obtain lm w1 where b: "batch_common_to_latin en ?names w = (lm, w1)"
    by (cases "batch_common_to_latin en ?names w")
  have s: "snd (primary_workflow en df w) =
      snd (batch_latin_to_taxid_ete3 en (list_of_set en (usable_values lm)) w1)"
    using True by (simp add: primary_workflow_def b Let_def split: prod.splits)
  have "count_list (events w1) (OracleCall d' n)
      \<le> count_list (events w) (OracleCall d' n) + (if d' = CommonToLatin then 3 else 0)"
    using batch_calls_distinct [OF distinct_primary_names, of en CommonToLatin df w d' n] b
    by (simp add: batch_common_to_latin_def)
  then show ?thesis by (simp add: s count_batch_taxid)
qed

lemma fallback_a_calls:
  "count_list (events (snd (fallback_a en df w))) (OracleCall d' n)
     \<le> count_list (events w) (OracleCall d' n) + (if d' = LatinToCommon then 3 else 0)"
proof -
  have s: "snd (fallback_a en df w) = snd (batch_latin_to_common en (unique_latin_fallback df) w)"
    by (simp add: fallback_a_def Let_def split: prod.splits)
  show ?thesis
    unfolding s
    using batch_calls_distinct [OF distinct_unique_latin_fallback, of en LatinToCommon df w d' n]
    by (simp add: batch_latin_to_common_def)
qed

lemma fallback_b_calls:
  "count_list (events (snd (snd (fallback_b en df w)))) (OracleCall d' n)
     = count_list (events w) (OracleCall d' n)"
proof -
  have s: "snd (snd (fallback_b en df w))
      = snd (batch_latin_to_taxid_ete3 en (unique_latin_fallback df) w)"
    by (simp add: fallback_b_def Let_def split: prod.splits)
  show ?thesis by (simp add: s count_batch_taxid)
qed

lemma fallback_c_calls:
  "count_list (events (snd (fallback_c en failed df w))) (OracleCall d' n)
     \<le> count_list (events w) (OracleCall d' n) + (if d' = CommonToLatin then 3 else 0)"
proof -
  obtain fm w1 where b: "batch_common_to_latin en (new_common_names failed df) w = (fm, w1)"
    by (cases "batch_common_to_latin en (new_common_names failed df) w")
  have s: "snd (fallback_c en failed df w) =
      snd (batch_latin_to_taxid_ete3 en (list_of_set en (usable_values fm)) w1)"
    by (simp add: fallback_c_def b Let_def split: prod.splits)
  have "count_list (events w1) (OracleCall d' n)
      \<le> count_list (events w) (OracleCall d' n) + (if d' = CommonToLatin then 3 else 0)"
    using batch_calls_distinct [OF distinct_new_common_names, of en CommonToLatin failed df w d' n] b
    by (simp add: batch_common_to_latin_def)
  then show ?thesis by (simp add: s count_batch_taxid)
qed

lemma fallback_calls:
  "count_list (events (snd (fallback_workflow en df w))) (OracleCall d' n)
     \<le> count_list (events w) (OracleCall d' n) + 3"
proof (cases "0 < length (filter mask_fallback df)")
  case False
  then show ?thesis by (simp add: fallback_workflow_def)
next
  case True
  obtain df1 w1 where a: "fallback_a en df w = (df1, w1)" by (cases "fallback_a en df w")
  obtain df2 tm w2 where b: "fallback_b en df1 w1 = (df2, tm, w2)"
    by (cases "fallback_b en df1 w1") auto
  have 1: "count_list (events w1) (OracleCall d' n)
      \<le> count_list (events w) (OracleCall d' n) + (if d' = LatinToCommon then 3 else 0)"
    using fallback_a_calls [of en df w d' n] by (simp add: a)
  have 2: "count_list (events w2) (OracleCall d' n) = count_list (events w1) (OracleCall d' n)"
    using fallback_b_calls [of en df1 w1 d' n] by (simp add: b)
  have 3: "count_list (events (snd (fallback_c en (failed_latin_names tm) df2 w2))) (OracleCall d' n)
      \<le> count_list (events w2) (OracleCall d' n) + (if d' = CommonToLatin then 3 else 0)"
    by (rule fallback_c_calls)
  have s: "snd (fallback_workflow en df w) =
      (if failed_latin_names tm \<noteq> [] then snd (fallback_c en (failed_latin_names tm) df2 w2)
       else w2)"
    using True by (simp add: fallback_workflow_def a b Let_def)
  show ?thesis
    unfolding s using 1 2 3 by (cases d') (auto split: if_splits)
qed

lemma workflows_calls:
  "count_list (events (snd (workflows en df w))) (OracleCall d' n)
     \<le> count_list (events w) (OracleCall d' n) + (if d' = CommonToLatin then 6 else 3)"
proof -
  obtain df1 w1 where p: "primary_workflow en (map clean_row df) w = (df1, w1)"
    by (cases "primary_workflow en (map clean_row df) w")
  have 1: "count_list (events w1) (OracleCall d' n)
      \<le> count_list (events w) (OracleCall d' n) + (if d' = CommonToLatin then 3 else 0)"
    using primary_calls [of en "map clean_row df" w d' n] by (simp add: p)
  have 2: "count_list (events (snd (fallback_workflow en df1 w1))) (OracleCall d' n)
      \<le> count_list (events w1) (OracleCall d' n) + 3"
    by (rule fallback_calls)
  have s: "snd (workflows en df w) = snd (fallback_workflow en df1 w1)"
    by (simp add: workflows_def p)
  show ?thesis unfolding s using 1 2 by (auto split: if_splits)
qed

section \<open>The merge\<close>

text \<open>
  C1, merge invariant. After the final merge of \<open>process_taxonomy_csv\<close>, in every row,
  each of the three output columns holds the value of its temporary column when that
  value is present, and otherwise the value the column had after cleaning (for the
  Taxonomy ID, the value of the input): a missing temporary value never clears a
  prior value. The temporary values are those the merge reads, in \<open>before_merge\<close>.
\<close>

theorem merge_invariant:
  assumes "i < length df"
  shows "length (fst (process_taxonomy_csv en df w)) = length df
    \<and> Common_Name (fst (process_taxonomy_csv en df w) ! i) =
        (case temp_common (before_merge en df w ! i) of
           Some v \<Rightarrow> Some v | None \<Rightarrow> clean_name (Common_Name (df ! i)))
    \<and> Latin_name (fst (process_taxonomy_csv en df w) ! i) =
        (case temp_latin (before_merge en df w ! i) of
           Some v \<Rightarrow> Some v | None \<Rightarrow> clean_name (Latin_name (df ! i)))
    \<and> Taxonomy_ID (fst (process_taxonomy_csv en df w) ! i) =
        (case temp_taxid (before_merge en df w ! i) of
           Some v \<Rightarrow> Some v | None \<Rightarrow> Taxonomy_ID (df ! i))"
proof -
  have o: "orig (before_merge en df w ! i) = orig (clean_row (df ! i))"
    using assms by (rule orig_before_merge_nth)
  have n: "fst (process_taxonomy_csv en df w) ! i = merge_row (before_merge en df w ! i)"
    using assms by (simp add: process_taxonomy_csv_def length_before_merge)
  show ?thesis
    using o n
    by (simp add: process_taxonomy_csv_def length_before_merge merge_row_def fillna_def
        orig_def clean_row_def split: option.splits)
qed

theorem merge_invariant_witness:
  "0 < length cat_table
   \<and> length (fst (process_taxonomy_csv demo_env cat_table start)) = length cat_table
   \<and> Common_Name (fst (process_taxonomy_csv demo_env cat_table start) ! 0) =
        (case temp_common (before_merge demo_env cat_table start ! 0) of
           Some v \<Rightarrow> Some v | None \<Rightarrow> clean_name (Common_Name (cat_table ! 0)))
   \<and> Latin_name (fst (process_taxonomy_csv demo_env cat_table start) ! 0) =
        (case temp_latin (before_merge demo_env cat_table start ! 0) of
           Some v \<Rightarrow> Some v | None \<Rightarrow> clean_name (Latin_name (cat_table ! 0)))
   \<and> Taxonomy_ID (fst (process_taxonomy_csv demo_env cat_table start) ! 0) =
        (case temp_taxid (before_merge demo_env cat_table start ! 0) of
           Some v \<Rightarrow> Some v | None \<Rightarrow> Taxonomy_ID (cat_table ! 0))"
proof -
  have h: "0 < length cat_table" by (simp add: cat_table_def)
  show ?thesis using merge_invariant [OF h, of demo_env start] h by simp
qed

section \<open>The partition\<close>

text \<open>
  C2, partition invariant. For every input table, after cleaning, the rows under the
  primary mask (valid common name) and the rows under the fallback mask (invalid
  common name, valid Latin name) are disjoint, and together with the rows whose two
  names are both invalid they are exactly the rows of the table.
\<close>

theorem partition_invariant:
  "rows_where mask_primary df \<inter> rows_where mask_fallback df = {}
   \<and> rows_where mask_primary df \<union> rows_where mask_fallback df \<union> rows_where both_invalid df
       = {0 ..< length df}"
  by (auto simp add: rows_where_def mask_primary_def mask_fallback_def both_invalid_def)

theorem partition_invariant_witness:
  "rows_where mask_primary (cat_table @ star_table @ canis_table) = {0}
   \<and> rows_where mask_fallback (cat_table @ star_table @ canis_table) = {2}
   \<and> rows_where both_invalid (cat_table @ star_table @ canis_table) = {1}
   \<and> {0} \<inter> {2} = ({} :: nat set) \<and> {0} \<union> {2} \<union> {1} = {0 ..< (3::nat)}"
proof -
  have p: "rows_where mask_primary (cat_table @ star_table @ canis_table) = {0}"
    by (simp add: rows_where_def cat_table_def star_table_def canis_table_def upt_rec
        clean_row_def mask_primary_def text_defs)
  have f: "rows_where mask_fallback (cat_table @ star_table @ canis_table) = {2}"
    by (simp add: rows_where_def cat_table_def star_table_def canis_table_def upt_rec
        clean_row_def mask_fallback_def text_defs)
  have b: "rows_where both_invalid (cat_table @ star_table @ canis_table) = {1}"
    by (simp add: rows_where_def cat_table_def star_table_def canis_table_def upt_rec
        clean_row_def both_invalid_def text_defs)
  have l: "length (cat_table @ star_table @ canis_table) = 3"
    by (simp add: cat_table_def star_table_def canis_table_def)
  show ?thesis
    using partition_invariant [of "cat_table @ star_table @ canis_table"] p f b l by simp
qed

section \<open>The trigger of the retry cascade\<close>

text \<open>
  C3, retry-cascade trigger, at an input where the code departs from it. The taxonomy
  client cannot open its archive, so the attempt-1 outcome of \<open>Felis catus\<close> is an
  error outcome of the cache category. Its text is \<open>Cache error: ...\<close>, which
  contains neither \<open>Not found\<close> nor \<open>Error\<close> with a capital letter: the list of
  failed Latin names is empty (an outcome of the generic category, \<open>Error: ...\<close>, does
  enter it), part (c) does not run (the trace has no second request
  to the language model), and the row leaves with the error text as its Taxonomy ID.
\<close>

theorem cache_error_not_retried:
  "fst (batch_latin_to_taxid_ete3 broken_cache_env [''Felis catus''] start) =
     [(''Felis catus'', ''Cache error: could not open taxdump archive'')]
   \<and> failed_latin_names [(''Felis catus'', ''Cache error: could not open taxdump archive'')] = []
   \<and> failed_latin_names [(''Felis catus'', ''Error: could not open archive'')] = [''Felis catus'']
   \<and> process_taxonomy_csv broken_cache_env felis_table start =
       ([\<lparr>Common_Name = Some ''unrecognizable'', Latin_name = Some ''Felis catus'',
          Taxonomy_ID = Some ''Cache error: could not open taxdump archive''\<rparr>],
        \<lparr>events = [OracleCall LatinToCommon ''Felis catus'', Lookup [''Felis catus'']]\<rparr>)"
proof -
  have e: "error_str ''could not open taxdump archive'' = ''Cache error: could not open taxdump archive''"
    by (simp add: error_str_def lower_def lower_char_def)
  have a: "batch_latin_to_taxid_ete3 broken_cache_env [''Felis catus''] w =
     ([(''Felis catus'', ''Cache error: could not open taxdump archive'')],
      log_event (Lookup [''Felis catus'']) w)" for w
    by (simp add: lookup_defs broken_cache_env_def e Let_def)
  have b: "failed_latin_names [(''Felis catus'', ''Cache error: could not open taxdump archive'')] = []"
    by (simp add: failed_latin_names_def)
  have g: "failed_latin_names [(''Felis catus'', ''Error: could not open archive'')] = [''Felis catus'']"
    by (simp add: failed_latin_names_def)
  have r: "batch_latin_to_common broken_cache_env [''Felis catus''] start =
      ([(''Felis catus'', ''unrecognizable'')], \<lparr>events = [OracleCall LatinToCommon ''Felis catus'']\<rparr>)"
    by (simp add: resolver_defs demo_defs strip_def is_space_def Let_def)
  have c: "map clean_row felis_table =
      [\<lparr>common_col = None, latin_col = Some ''Felis catus'', taxid_col = None,
        temp_common = None, temp_latin = None, temp_taxid = None\<rparr>]"
    by (simp add: felis_table_def clean_row_def clean_name_def strip_def is_space_def)
  have v: "is_invalid None" "\<not> is_invalid (Some ''Felis catus'')"
    by (simp_all add: text_defs)
  have w: "workflows broken_cache_env felis_table start =
      ([\<lparr>common_col = None, latin_col = Some ''Felis catus'', taxid_col = None,
         temp_common = Some ''unrecognizable'', temp_latin = Some ''Felis catus'',
         temp_taxid = Some ''Cache error: could not open taxdump archive''\<rparr>],
       \<lparr>events = [OracleCall LatinToCommon ''Felis catus'', Lookup [''Felis catus'']]\<rparr>)"
    by (simp add: workflows_def c primary_workflow_def fallback_workflow_def fallback_a_def
        fallback_b_def mask_primary_def mask_fallback_def v unique_latin_fallback_def
        column_where_def unique_def present_def List.map_filter_def r a b assign_where_def
        series_map_def log_event_def Let_def)
  show ?thesis
    by (simp add: a b g process_taxonomy_csv_def before_merge_def w carry_sentinel_def merge_row_def
        fillna_def series_map_def sentinel_map_def)
qed

section \<open>The batch resolver\<close>

text \<open>
  C4, retry exhaustion; \<open>batch_common_to_latin\<close> and \<open>batch_latin_to_common\<close> are
  \<open>batch_resolve\<close> in the two directions. When every single-name call for a name gives
  a string containing \<open>GLM call failed\<close>, the round of the batch loop for that name
  makes exactly three calls, sleeps 2, 4 and 6 seconds after them, and records exactly
  \<open>GLM call failed\<close> for the name; the batch goes on with the names that follow, and
  its result has an outcome for every input name, \<open>GLM call failed\<close> for this one.
\<close>

theorem retry_exhaustion:
  assumes "\<And>w. contains ''GLM call failed'' (fst (glm_convert en d name w))"
  shows "resolve_name en d name (m, w) =
      (AList.update name ''GLM call failed'' m,
       w\<lparr>events := events w @ [OracleCall d name, Sleep 2, OracleCall d name, Sleep 4,
                                 OracleCall d name, Sleep 6]\<rparr>)
    \<and> batch_resolve en d (xs @ name # ys) w0 =
        fold (resolve_name en d) ys
          (resolve_name en d name (fold (resolve_name en d) xs ([], w0)))
    \<and> map_of (fst (batch_resolve en d (xs @ name # ys) w0)) name = Some ''GLM call failed''
    \<and> fst ` set (fst (batch_resolve en d (xs @ name # ys) w0)) = set (xs @ name # ys)"
proof -
  have 1: "resolve_name en d name (m, w) =
      (AList.update name ''GLM call failed'' m,
       w\<lparr>events := events w @ [OracleCall d name, Sleep 2, OracleCall d name, Sleep 4,
                                 OracleCall d name, Sleep 6]\<rparr>)"
    by (rule resolve_name_exhausted [OF assms])
  have 2: "batch_resolve en d (xs @ name # ys) w0 =
        fold (resolve_name en d) ys
          (resolve_name en d name (fold (resolve_name en d) xs ([], w0)))"
    by (simp add: batch_resolve_fold)
  obtain m1 w1 where s: "fold (resolve_name en d) xs ([], w0) = (m1, w1)"
    by (cases "fold (resolve_name en d) xs ([], w0)")
  have "map_of (fst (resolve_name en d name (m1, w1))) name = Some ''GLM call failed''"
    by (simp add: resolve_name_exhausted [OF assms] update_conv')
  then have 3: "map_of (fst (batch_resolve en d (xs @ name # ys) w0)) name = Some ''GLM call failed''"
    unfolding 2 s by (rule fold_keeps_failed [OF assms])
  have 4: "fst ` set (fst (batch_resolve en d (xs @ name # ys) w0)) = set (xs @ name # ys)"
    by (simp add: batch_resolve_fold keys_fold_resolve keys_resolve_name)
  show ?thesis using 1 2 3 4 by blast
qed

theorem retry_exhaustion_witness:
  "(\<forall>w. contains ''GLM call failed'' (fst (glm_convert demo_env LatinToCommon ''Canis'' w)))
   \<and> resolve_name demo_env LatinToCommon ''Canis'' ([], start) =
       ([(''Canis'', ''GLM call failed'')],
        \<lparr>events = [OracleCall LatinToCommon ''Canis'', Sleep 2, OracleCall LatinToCommon ''Canis'',
                   Sleep 4, OracleCall LatinToCommon ''Canis'', Sleep 6]\<rparr>)
   \<and> map_of (fst (batch_resolve demo_env LatinToCommon
                      ([''Unknownus speciesus''] @ ''Canis'' # [''Felis'']) start)) ''Canis''
       = Some ''GLM call failed''
   \<and> fst ` set (fst (batch_resolve demo_env LatinToCommon
                        ([''Unknownus speciesus''] @ ''Canis'' # [''Felis'']) start))
       = {''Unknownus speciesus'', ''Canis'', ''Felis''}"
proof -
  have h: "\<And>w. contains ''GLM call failed'' (fst (glm_convert demo_env LatinToCommon ''Canis'' w))"
    by (simp add: glm_convert_def demo_defs Let_def)
  have u: "AList.update ''Canis'' ''GLM call failed'' [] = [(''Canis'', ''GLM call failed'')]"
    by simp
  have e: "start\<lparr>events := events start @ [OracleCall LatinToCommon ''Canis'', Sleep 2,
        OracleCall LatinToCommon ''Canis'', Sleep 4, OracleCall LatinToCommon ''Canis'', Sleep 6]\<rparr>
      = \<lparr>events = [OracleCall LatinToCommon ''Canis'', Sleep 2, OracleCall LatinToCommon ''Canis'',
                   Sleep 4, OracleCall LatinToCommon ''Canis'', Sleep 6]\<rparr>"
    by (simp add: start_def)
  have s: "set ([''Unknownus speciesus''] @ ''Canis'' # [''Felis''])
      = {''Unknownus speciesus'', ''Canis'', ''Felis''}"
    by simp
  note t = retry_exhaustion [of demo_env LatinToCommon "''Canis''" "[]" start
        "[''Unknownus speciesus'']" "[''Felis'']" start, OF h]
  have 1: "resolve_name demo_env LatinToCommon ''Canis'' ([], start) =
       ([(''Canis'', ''GLM call failed'')],
        \<lparr>events = [OracleCall LatinToCommon ''Canis'', Sleep 2, OracleCall LatinToCommon ''Canis'',
                   Sleep 4, OracleCall LatinToCommon ''Canis'', Sleep 6]\<rparr>)"
    using conjunct1 [OF t] by (simp only: u e)
  have 3: "map_of (fst (batch_resolve demo_env LatinToCommon
                      ([''Unknownus speciesus''] @ ''Canis'' # [''Felis'']) start)) ''Canis''
       = Some ''GLM call failed''"
    using t by blast
  have 4: "fst ` set (fst (batch_resolve demo_env LatinToCommon
                        ([''Unknownus speciesus''] @ ''Canis'' # [''Felis'']) start))
       = {''Unknownus speciesus'', ''Canis'', ''Felis''}"
    using conjunct2 [OF conjunct2 [OF conjunct2 [OF t]]] by (simp only: s)
  show ?thesis using h 1 3 4 by blast
qed

text \<open>
  C5, what the batch resolver does with a repeated name, as the code has it. The
  returned dictionary holds exactly one outcome for each distinct input name. The
  language model is asked at least once and at most three times for each occurrence
  of a name in the input list: the loop runs over the list as it is given.
  Deduplication is done by the caller: the three lists that the engine passes to the
  batch resolvers (the unique common names of the primary rows, the unique Latin
  names of the fallback rows, the usable unique recovered common names of part (c))
  have no repeats, so in a whole run of \<open>process_taxonomy_csv\<close> a name is asked for
  at most six times in the direction common to Latin (the primary batch and the batch
  of part (c), three each) and at most three times in the direction Latin to common,
  however many rows carry it.
\<close>

theorem batch_resolve_calls:
  "fst ` set (fst (batch_resolve en d names w)) = set names
   \<and> distinct (map fst (fst (batch_resolve en d names w)))
   \<and> count_list (events w) (OracleCall d n) + count_list names n
       \<le> count_list (events (snd (batch_resolve en d names w))) (OracleCall d n)
   \<and> count_list (events (snd (batch_resolve en d names w))) (OracleCall d n)
       \<le> count_list (events w) (OracleCall d n) + 3 * count_list names n
   \<and> distinct (present (unique (column_where mask_primary common_col rows)))
   \<and> distinct (unique_latin_fallback rows)
   \<and> distinct (new_common_names failed rows)
   \<and> count_list (events (snd (process_taxonomy_csv en df w))) (OracleCall CommonToLatin n)
       \<le> count_list (events w) (OracleCall CommonToLatin n) + 6
   \<and> count_list (events (snd (process_taxonomy_csv en df w))) (OracleCall LatinToCommon n)
       \<le> count_list (events w) (OracleCall LatinToCommon n) + 3"
proof -
  have a: "fst ` set (fst (batch_resolve en d names w)) = set names
   \<and> distinct (map fst (fst (batch_resolve en d names w)))
   \<and> count_list (events w) (OracleCall d n) + count_list names n
       \<le> count_list (events (snd (batch_resolve en d names w))) (OracleCall d n)
   \<and> count_list (events (snd (batch_resolve en d names w))) (OracleCall d n)
       \<le> count_list (events w) (OracleCall d n) + 3 * count_list names n"
    using fold_resolve_calls [of "([], w)" d n names en]
      distinct_fold_resolve [of "([], w)" en d names]
    by (simp add: batch_resolve_fold keys_fold_resolve)
  have s: "snd (process_taxonomy_csv en df w) = snd (workflows en df w)"
    by (simp add: process_taxonomy_csv_def)
  have c: "count_list (events (snd (process_taxonomy_csv en df w))) (OracleCall CommonToLatin n)
       \<le> count_list (events w) (OracleCall CommonToLatin n) + 6"
    using workflows_calls [of en df w CommonToLatin n] by (simp add: s)
  have l: "count_list (events (snd (process_taxonomy_csv en df w))) (OracleCall LatinToCommon n)
       \<le> count_list (events w) (OracleCall LatinToCommon n) + 3"
    using workflows_calls [of en df w LatinToCommon n] by (simp add: s)
  show ?thesis
    using a distinct_primary_names [of rows] distinct_unique_latin_fallback [of rows]
      distinct_new_common_names [of failed rows] c l
    by blast
qed

theorem batch_resolve_calls_witness:
  "fst ` set (fst (batch_resolve demo_env CommonToLatin [''cat'', ''cat''] start)) = {''cat''}
   \<and> 2 \<le> count_list (events (snd (batch_resolve demo_env CommonToLatin [''cat'', ''cat''] start)))
            (OracleCall CommonToLatin ''cat'')
   \<and> count_list (events (snd (batch_resolve demo_env CommonToLatin [''cat'', ''cat''] start)))
            (OracleCall CommonToLatin ''cat'') \<le> 6
   \<and> present (unique (column_where mask_primary common_col (map clean_row (cat_table @ cat_table))))
        = [''cat'']
   \<and> distinct (present (unique (column_where mask_primary common_col
                                   (map clean_row (cat_table @ cat_table)))))
   \<and> count_list (events (snd (process_taxonomy_csv demo_env (cat_table @ cat_table) start)))
            (OracleCall CommonToLatin ''cat'') \<le> 6
   \<and> count_list (events (snd (process_taxonomy_csv demo_env (cat_table @ cat_table) start)))
            (OracleCall LatinToCommon ''cat'') \<le> 3"
proof -
  have c: "map clean_row (cat_table @ cat_table) =
      [\<lparr>common_col = Some ''cat'', latin_col = None, taxid_col = None,
        temp_common = None, temp_latin = None, temp_taxid = None\<rparr>,
       \<lparr>common_col = Some ''cat'', latin_col = None, taxid_col = None,
        temp_common = None, temp_latin = None, temp_taxid = None\<rparr>]"
    by (simp add: cat_table_def clean_row_def clean_name_def strip_def is_space_def)
  have v: "\<not> is_invalid (Some ''cat'')" by (simp add: text_defs)
  have u: "present (unique (column_where mask_primary common_col
        (map clean_row (cat_table @ cat_table)))) = [''cat'']"
    unfolding c
    by (simp add: column_where_def mask_primary_def v unique_def present_def
        List.map_filter_def)
  have e: "events start = []" by (simp add: start_def)
  note t = batch_resolve_calls [of demo_env CommonToLatin "[''cat'', ''cat'']" start "''cat''"
      "map clean_row (cat_table @ cat_table)" "[]" "cat_table @ cat_table"]
  show ?thesis
    using t u e by simp
qed

text \<open>
  On a list that names the cat twice the language model is asked for the cat twice,
  once for each occurrence and not once for the one distinct name.
\<close>

theorem batch_resolve_dedup_counterexample:
  "remdups [''cat'', ''cat''] = [''cat'']
   \<and> count_list (events (snd (batch_common_to_latin demo_env [''cat'', ''cat''] start)))
        (OracleCall CommonToLatin ''cat'') = 2"
  by (simp add: resolver_defs demo_defs strip_def is_space_def Let_def)

section \<open>Identifier lookup\<close>

text \<open>
  C6, fail-batch semantics of \<open>batch_latin_to_taxid_ete3\<close>. An empty list gives an
  empty dictionary and the taxonomy client is not used. For a non-empty list, when
  the initialisation of the client or the batch query raises an exception with
  message \<open>e\<close>, the function returns (nothing is raised to the caller) a dictionary
  whose keys are exactly the input names and which gives every one of them the same
  string: \<open>e\<close> labelled with exactly one of the three categories, chosen by keyword
  (cache, then network, else generic).
\<close>

theorem lookup_fail_batch:
  "batch_latin_to_taxid_ete3 en [] w = ([], w)
   \<and> (latin_names \<noteq> [] \<and> ncbi en (events w) latin_names = Inl e \<longrightarrow>
        (\<forall>n \<in> set latin_names.
           map_of (fst (batch_latin_to_taxid_ete3 en latin_names w)) n = Some (error_str e))
      \<and> fst ` set (fst (batch_latin_to_taxid_ete3 en latin_names w)) = set latin_names
      \<and> error_str e =
          (if list_ex (\<lambda>k. contains k (lower e)) [''cache'', ''taxdump'', ''sqlite'']
           then ''Cache error: '' @ e
           else if list_ex (\<lambda>k. contains k (lower e)) [''connection'', ''network'', ''download'']
           then ''Network error: '' @ e
           else ''Error: '' @ e)
      \<and> ''Cache error: '' @ e \<noteq> ''Network error: '' @ e
      \<and> ''Cache error: '' @ e \<noteq> ''Error: '' @ e
      \<and> ''Network error: '' @ e \<noteq> ''Error: '' @ e
      \<and> events (snd (batch_latin_to_taxid_ete3 en latin_names w)) = events w @ [Lookup latin_names])"
  by (simp add: batch_latin_to_taxid_ete3_def Let_def map_of_fill_errors keys_fill_errors
      error_str_def log_event_def)

theorem lookup_fail_batch_witness:
  "[''Felis catus'', ''Canis''] \<noteq> []
   \<and> ncbi broken_cache_env (events start) [''Felis catus'', ''Canis''] = Inl ''could not open taxdump archive''
   \<and> error_str ''could not open taxdump archive'' = ''Cache error: could not open taxdump archive''
   \<and> map_of (fst (batch_latin_to_taxid_ete3 broken_cache_env [''Felis catus'', ''Canis''] start)) ''Canis''
        = Some ''Cache error: could not open taxdump archive''
   \<and> fst ` set (fst (batch_latin_to_taxid_ete3 broken_cache_env [''Felis catus'', ''Canis''] start))
        = {''Felis catus'', ''Canis''}"
proof -
  have h: "ncbi broken_cache_env (events start) [''Felis catus'', ''Canis'']
      = Inl ''could not open taxdump archive''"
    by (simp add: broken_cache_env_def)
  have c: "error_str ''could not open taxdump archive'' = ''Cache error: could not open taxdump archive''"
    by (simp add: error_str_def lower_def lower_char_def)
  show ?thesis
    using lookup_fail_batch [of broken_cache_env start "[''Felis catus'', ''Canis'']"
        "''could not open taxdump archive''"] h c
    by auto
qed

section \<open>The sentinel carried into the identifier\<close>

text \<open>
  C7, sentinel carry before the merge. In every row of every run, when the workflows
  leave \<open>temp_latin\<close> equal to \<open>unrecognizable\<close> or to \<open>GLM call failed\<close> and
  \<open>temp_taxid\<close> missing, the table the merge reads has that same sentinel in
  \<open>temp_taxid\<close>, and it is the Taxonomy ID of the output. Consequently a row with a
  valid common name that the language model always answers with \<open>unrecognizable\<close>
  leaves with Latin name \<open>unrecognizable\<close> and Taxonomy ID \<open>unrecognizable\<close>, and the
  identifier lookup of the primary workflow is not asked for \<open>unrecognizable\<close>; for
  this consequence the order of \<open>list(set(...))\<close> is taken to enumerate exactly the
  elements of the set.
\<close>

theorem sentinel_carry:
  "(\<forall>j s. j < length df \<and> temp_latin (fst (workflows en df w) ! j) = Some s
            \<and> (s = ''unrecognizable'' \<or> s = ''GLM call failed'')
            \<and> temp_taxid (fst (workflows en df w) ! j) = None
          \<longrightarrow> temp_taxid (before_merge en df w ! j) = Some s
            \<and> Taxonomy_ID (fst (process_taxonomy_csv en df w) ! j) = Some s)
   \<and> (i < length df \<and> mask_primary (clean_row (df ! i))
        \<and> clean_name (Common_Name (df ! i)) = Some c
        \<and> (\<forall>w'. fst (common_name_to_latin en c w') = ''unrecognizable'')
        \<and> (\<forall>xs. set (set_order en xs) = set xs)
      \<longrightarrow> temp_latin (fst (workflows en df w) ! i) = Some ''unrecognizable''
        \<and> temp_taxid (fst (workflows en df w) ! i) = None
        \<and> Latin_name (fst (process_taxonomy_csv en df w) ! i) = Some ''unrecognizable''
        \<and> Taxonomy_ID (fst (process_taxonomy_csv en df w) ! i) = Some ''unrecognizable''
        \<and> (\<forall>ns. Lookup ns \<in> set (events (snd (primary_workflow en (map clean_row df) w)))
              \<longrightarrow> Lookup ns \<in> set (events w) \<or> ''unrecognizable'' \<notin> set ns))"
proof (intro conjI allI impI)
  fix j s
  assume a: "j < length df \<and> temp_latin (fst (workflows en df w) ! j) = Some s
            \<and> (s = ''unrecognizable'' \<or> s = ''GLM call failed'')
            \<and> temp_taxid (fst (workflows en df w) ! j) = None"
  have t: "temp_taxid (carry_sentinel (fst (workflows en df w) ! j)) = Some s"
    using a carry_sentinel_taxid by blast
  show "temp_taxid (before_merge en df w ! j) = Some s"
    using a t by (simp add: process_row)
  show "Taxonomy_ID (fst (process_taxonomy_csv en df w) ! j) = Some s"
    using a t by (simp add: process_row merge_row_def fillna_def)
next
  assume h: "i < length df \<and> mask_primary (clean_row (df ! i))
        \<and> clean_name (Common_Name (df ! i)) = Some c
        \<and> (\<forall>w'. fst (common_name_to_latin en c w') = ''unrecognizable'')
        \<and> (\<forall>xs. set (set_order en xs) = set xs)"
  have r: "fst (workflows en df w) ! i =
      (clean_row (df ! i))\<lparr>temp_latin := Some ''unrecognizable'', temp_taxid := None\<rparr>"
    using h workflows_unrecognizable_row [of i df c en w] by blast
  show "temp_latin (fst (workflows en df w) ! i) = Some ''unrecognizable''"
    and "temp_taxid (fst (workflows en df w) ! i) = None"
    by (simp_all add: r)
  show "Latin_name (fst (process_taxonomy_csv en df w) ! i) = Some ''unrecognizable''"
    and "Taxonomy_ID (fst (process_taxonomy_csv en df w) ! i) = Some ''unrecognizable''"
    using h by (simp_all add: process_row r merge_row_def carry_sentinel_def fillna_def
        series_map_def sentinel_map_def)
  fix ns
  assume "Lookup ns \<in> set (events (snd (primary_workflow en (map clean_row df) w)))"
  then show "Lookup ns \<in> set (events w) \<or> ''unrecognizable'' \<notin> set ns"
    using h primary_lookup_excludes [of en ns "map clean_row df" w] by blast
qed

theorem sentinel_carry_witness:
  "0 < length odd_table
   \<and> mask_primary (clean_row (odd_table ! 0))
   \<and> clean_name (Common_Name (odd_table ! 0)) = Some ''zzz''
   \<and> (\<forall>w. fst (common_name_to_latin demo_env ''zzz'' w) = ''unrecognizable'')
   \<and> (\<forall>xs. set (set_order demo_env xs) = set xs)
   \<and> temp_latin (fst (workflows demo_env odd_table start) ! 0) = Some ''unrecognizable''
   \<and> temp_taxid (fst (workflows demo_env odd_table start) ! 0) = None
   \<and> temp_taxid (before_merge demo_env odd_table start ! 0) = Some ''unrecognizable''
   \<and> Latin_name (fst (process_taxonomy_csv demo_env odd_table start) ! 0) = Some ''unrecognizable''
   \<and> Taxonomy_ID (fst (process_taxonomy_csv demo_env odd_table start) ! 0) = Some ''unrecognizable''
   \<and> Lookup [''unrecognizable'']
        \<notin> set (events (snd (primary_workflow demo_env (map clean_row odd_table) start)))
   \<and> 0 < length cat_table
   \<and> temp_latin (fst (workflows failing_env cat_table start) ! 0) = Some ''GLM call failed''
   \<and> temp_taxid (fst (workflows failing_env cat_table start) ! 0) = None
   \<and> temp_taxid (before_merge failing_env cat_table start ! 0) = Some ''GLM call failed''
   \<and> Taxonomy_ID (fst (process_taxonomy_csv failing_env cat_table start) ! 0)
        = Some ''GLM call failed''"
proof -
  have h1: "0 < length odd_table" by (simp add: odd_table_def)
  have h3: "clean_name (Common_Name (odd_table ! 0)) = Some ''zzz''"
    by (simp add: odd_table_def clean_name_def strip_def is_space_def)
  have h2: "mask_primary (clean_row (odd_table ! 0))"
    using h3 by (simp add: clean_row_def mask_primary_def is_invalid_def strip_def is_space_def
        lower_def lower_char_def)
  have h4: "\<forall>w. fst (common_name_to_latin demo_env ''zzz'' w) = ''unrecognizable''"
    by (simp add: common_name_to_latin_def glm_convert_def demo_defs strip_def is_space_def Let_def)
  have h5: "\<forall>xs. set (set_order demo_env xs) = set xs"
    by (simp add: demo_env_def)
  have e: "events start = []" by (simp add: start_def)
  note t = sentinel_carry [of odd_table demo_env start 0 "''zzz''"]
  have s: "temp_latin (fst (workflows demo_env odd_table start) ! 0) = Some ''unrecognizable''
        \<and> temp_taxid (fst (workflows demo_env odd_table start) ! 0) = None
        \<and> Latin_name (fst (process_taxonomy_csv demo_env odd_table start) ! 0) = Some ''unrecognizable''
        \<and> Taxonomy_ID (fst (process_taxonomy_csv demo_env odd_table start) ! 0) = Some ''unrecognizable''
        \<and> (\<forall>ns. Lookup ns \<in> set (events (snd (primary_workflow demo_env (map clean_row odd_table) start)))
              \<longrightarrow> Lookup ns \<in> set (events start) \<or> ''unrecognizable'' \<notin> set ns)"
    using conjunct2 [OF t] h1 h2 h3 h4 h5 by blast
  have k: "temp_taxid (before_merge demo_env odd_table start ! 0) = Some ''unrecognizable''"
    using conjunct1 [OF t] h1 s by blast
  have l: "Lookup [''unrecognizable'']
      \<notin> set (events (snd (primary_workflow demo_env (map clean_row odd_table) start)))"
    using s e by auto
  have g1: "0 < length cat_table" by (simp add: cat_table_def)
  have c: "map clean_row cat_table =
      [\<lparr>common_col = Some ''cat'', latin_col = None, taxid_col = None,
        temp_common = None, temp_latin = None, temp_taxid = None\<rparr>]"
    by (simp add: cat_table_def clean_row_def clean_name_def strip_def is_space_def)
  have v: "is_invalid None" "\<not> is_invalid (Some ''cat'')"
    by (simp_all add: text_defs)
  have b: "batch_common_to_latin failing_env [''cat''] start =
      ([(''cat'', ''GLM call failed'')],
       \<lparr>events = [OracleCall CommonToLatin ''cat'', Sleep 2, OracleCall CommonToLatin ''cat'',
                  Sleep 4, OracleCall CommonToLatin ''cat'', Sleep 6]\<rparr>)"
    by (simp add: resolver_defs failing_env_def start_def Let_def)
  have uv: "usable_values [(''cat'', ''GLM call failed'')] = []"
    by (simp add: usable_values_def usable_def)
  have so: "set_order failing_env = id" by (simp add: failing_env_def)
  have wf: "fst (workflows failing_env cat_table start) =
      [\<lparr>common_col = Some ''cat'', latin_col = None, taxid_col = None,
        temp_common = None, temp_latin = Some ''GLM call failed'', temp_taxid = None\<rparr>]"
    by (simp add: workflows_def c primary_workflow_def fallback_workflow_def mask_primary_def
        mask_fallback_def v column_where_def unique_def present_def List.map_filter_def b uv
        list_of_set_def so batch_latin_to_taxid_ete3_def assign_where_def series_map_def Let_def)
  have g2: "temp_latin (fst (workflows failing_env cat_table start) ! 0) = Some ''GLM call failed''"
    and g3: "temp_taxid (fst (workflows failing_env cat_table start) ! 0) = None"
    by (simp_all add: wf)
  note u = sentinel_carry [of cat_table failing_env start 0 "''cat''"]
  have g4: "temp_taxid (before_merge failing_env cat_table start ! 0) = Some ''GLM call failed''
      \<and> Taxonomy_ID (fst (process_taxonomy_csv failing_env cat_table start) ! 0)
          = Some ''GLM call failed''"
    using conjunct1 [OF u] g1 g2 g3 by blast
  show ?thesis
    using h1 h2 h3 h4 h5 s k l g1 g2 g3 g4 by blast
qed

section \<open>The retry cascade\<close>

text \<open>
  C8, frame of part (c) of the fallback workflow. Part (c) leaves \<open>temp_common\<close> of
  every row as it was. A row whose Latin name is not among the failed names keeps its
  \<open>temp_latin\<close> and \<open>temp_taxid\<close>, and so does a row outside the fallback partition
  even when it carries a failed Latin name. A fallback row whose Latin name is among
  the failed names gets the second attempt's results, joined through its
  \<open>temp_common\<close>.
\<close>

theorem retry_cascade_frame:
  assumes "i < length df"
  shows "length (fst (fallback_c en failed df w)) = length df
    \<and> temp_common (fst (fallback_c en failed df w) ! i) = temp_common (df ! i)
    \<and> (latin_col (df ! i) \<notin> Some ` set failed \<longrightarrow>
          temp_latin (fst (fallback_c en failed df w) ! i) = temp_latin (df ! i)
        \<and> temp_taxid (fst (fallback_c en failed df w) ! i) = temp_taxid (df ! i))
    \<and> (\<not> mask_fallback (df ! i) \<longrightarrow>
          temp_latin (fst (fallback_c en failed df w) ! i) = temp_latin (df ! i)
        \<and> temp_taxid (fst (fallback_c en failed df w) ! i) = temp_taxid (df ! i))
    \<and> (mask_fallback (df ! i) \<and> latin_col (df ! i) \<in> Some ` set failed \<longrightarrow>
          temp_latin (fst (fallback_c en failed df w) ! i) =
            series_map (attempt2_forward_map en failed df w) (temp_common (df ! i))
        \<and> temp_taxid (fst (fallback_c en failed df w) ! i) =
            series_map (attempt2_taxid_map en failed df w)
              (temp_latin (fst (fallback_c en failed df w) ! i)))"
  using fallback_c_row [OF assms, of en failed w]
  by (simp add: mask_attempt2_def)

theorem retry_cascade_frame_witness:
  "0 < length cascade_table \<and> 1 < length cascade_table \<and> 2 < length cascade_table
   \<and> mask_fallback (cascade_table ! 0)
   \<and> latin_col (cascade_table ! 0) \<in> Some ` set [''Unknownus speciesus'']
   \<and> temp_common (fst (fallback_c demo_env [''Unknownus speciesus''] cascade_table start) ! 0)
        = Some ''mystery beast''
   \<and> temp_latin (fst (fallback_c demo_env [''Unknownus speciesus''] cascade_table start) ! 0)
        = Some ''Felis catus''
   \<and> temp_taxid (fst (fallback_c demo_env [''Unknownus speciesus''] cascade_table start) ! 0)
        = Some ''9685''
   \<and> latin_col (cascade_table ! 1) \<notin> Some ` set [''Unknownus speciesus'']
   \<and> temp_common (fst (fallback_c demo_env [''Unknownus speciesus''] cascade_table start) ! 1)
        = Some ''unrecognizable''
   \<and> temp_latin (fst (fallback_c demo_env [''Unknownus speciesus''] cascade_table start) ! 1)
        = Some ''Felis catus''
   \<and> temp_taxid (fst (fallback_c demo_env [''Unknownus speciesus''] cascade_table start) ! 1)
        = Some ''9685''
   \<and> \<not> mask_fallback (cascade_table ! 2)
   \<and> latin_col (cascade_table ! 2) \<in> Some ` set [''Unknownus speciesus'']
   \<and> temp_common (fst (fallback_c demo_env [''Unknownus speciesus''] cascade_table start) ! 2)
        = None
   \<and> temp_latin (fst (fallback_c demo_env [''Unknownus speciesus''] cascade_table start) ! 2)
        = Some ''Felis catus''
   \<and> temp_taxid (fst (fallback_c demo_env [''Unknownus speciesus''] cascade_table start) ! 2)
        = Some ''9685''"
proof -
  let ?failed = "[''Unknownus speciesus'']"
  have l: "0 < length cascade_table" "1 < length cascade_table" "2 < length cascade_table"
    by (simp_all add: cascade_table_def)
  have v: "is_invalid None" "\<not> is_invalid (Some ''Unknownus speciesus'')"
    "\<not> is_invalid (Some ''Felis catus'')" "\<not> is_invalid (Some ''cat'')"
    "\<not> is_invalid (Some ''mystery beast'')"
    by (simp_all add: text_defs)
  have m0: "mask_fallback (cascade_table ! 0)"
    and m2: "\<not> mask_fallback (cascade_table ! 2)"
    by (simp_all add: cascade_table_def mask_fallback_def v)
  have i0: "latin_col (cascade_table ! 0) \<in> Some ` set ?failed"
    and o1: "latin_col (cascade_table ! 1) \<notin> Some ` set ?failed"
    and i2: "latin_col (cascade_table ! 2) \<in> Some ` set ?failed"
    by (simp_all add: cascade_table_def)
  have u: "usable (Some ''mystery beast'')"
    by (simp add: usable_def v)
  have n: "new_common_names ?failed cascade_table = [''mystery beast'']"
    by (simp add: new_common_names_def cascade_table_def column_where_def mask_attempt2_def
        mask_fallback_def v unique_def u present_def List.map_filter_def)
  have b: "batch_common_to_latin demo_env [''mystery beast''] start =
      ([(''mystery beast'', ''Felis catus'')], \<lparr>events = [OracleCall CommonToLatin ''mystery beast'']\<rparr>)"
    by (simp add: resolver_defs demo_defs strip_def is_space_def Let_def)
  have fm: "attempt2_forward_map demo_env ?failed cascade_table start
      = [(''mystery beast'', ''Felis catus'')]"
    by (simp add: attempt2_forward_map_def n b)
  have uv: "usable_values [(''mystery beast'', ''Felis catus'')] = [''Felis catus'']"
    by (simp add: usable_values_def usable_def v)
  have a: "fst (batch_latin_to_taxid_ete3 demo_env [''Felis catus''] w) = [(''Felis catus'', ''9685'')]"
    for w
    by (simp add: lookup_defs demo_env_def str_int_def digits.simps digit_char_def Let_def)
  have tm: "attempt2_taxid_map demo_env ?failed cascade_table start = [(''Felis catus'', ''9685'')]"
  proof -
    have so: "set_order demo_env = id" by (simp add: demo_env_def)
    show ?thesis
      by (simp add: attempt2_taxid_map_def fm uv list_of_set_def so a)
  qed
  have c: "temp_common (cascade_table ! 0) = Some ''mystery beast''"
    "temp_common (cascade_table ! 1) = Some ''unrecognizable''"
    "temp_latin (cascade_table ! 1) = Some ''Felis catus''"
    "temp_taxid (cascade_table ! 1) = Some ''9685''"
    "temp_common (cascade_table ! 2) = None"
    "temp_latin (cascade_table ! 2) = Some ''Felis catus''"
    "temp_taxid (cascade_table ! 2) = Some ''9685''"
    by (simp_all add: cascade_table_def)
  note t0 = retry_cascade_frame [OF l(1), of demo_env ?failed start]
  note t1 = retry_cascade_frame [OF l(2), of demo_env ?failed start]
  note t2 = retry_cascade_frame [OF l(3), of demo_env ?failed start]
  have r0: "temp_common (fst (fallback_c demo_env ?failed cascade_table start) ! 0) = Some ''mystery beast''"
    "temp_latin (fst (fallback_c demo_env ?failed cascade_table start) ! 0) = Some ''Felis catus''"
    "temp_taxid (fst (fallback_c demo_env ?failed cascade_table start) ! 0) = Some ''9685''"
    using t0 m0 i0 c by (simp_all add: fm tm series_map_def)
  have r1: "temp_common (fst (fallback_c demo_env ?failed cascade_table start) ! 1) = Some ''unrecognizable''"
    "temp_latin (fst (fallback_c demo_env ?failed cascade_table start) ! 1) = Some ''Felis catus''"
    "temp_taxid (fst (fallback_c demo_env ?failed cascade_table start) ! 1) = Some ''9685''"
    using t1 o1 c by simp_all
  have r2: "temp_common (fst (fallback_c demo_env ?failed cascade_table start) ! 2) = None"
    "temp_latin (fst (fallback_c demo_env ?failed cascade_table start) ! 2) = Some ''Felis catus''"
    "temp_taxid (fst (fallback_c demo_env ?failed cascade_table start) ! 2) = Some ''9685''"
    using t2 m2 c by simp_all
  show ?thesis
    using l m0 i0 o1 m2 i2 r0 r1 r2 by blast
qed

section \<open>Rows with no valid name\<close>

text \<open>
  C9, both-invalid passthrough, as the code has it. A row whose common name and Latin
  name are both invalid after cleaning is in neither partition, and in the output its
  Common Name and Latin name are the cleaned input values and its Taxonomy ID is the
  input value.
\<close>

theorem both_invalid_passthrough:
  assumes "i < length df" and "both_invalid (clean_row (df ! i))"
  shows "i \<notin> rows_where mask_primary df \<and> i \<notin> rows_where mask_fallback df
    \<and> fst (process_taxonomy_csv en df w) ! i =
        \<lparr>Common_Name = clean_name (Common_Name (df ! i)),
         Latin_name = clean_name (Latin_name (df ! i)),
         Taxonomy_ID = Taxonomy_ID (df ! i)\<rparr>"
proof -
  have np: "\<not> mask_primary (clean_row (df ! i))" and nf: "\<not> mask_fallback (clean_row (df ! i))"
    using assms(2) by (simp_all add: both_invalid_def mask_primary_def mask_fallback_def)
  have r: "fst (workflows en df w) ! i = clean_row (df ! i)"
    using assms(1) np nf by (rule workflows_keeps_row)
  have l: "length (fst (workflows en df w)) = length df"
    using length_before_merge [of en df w] by (simp add: before_merge_def)
  have "fst (process_taxonomy_csv en df w) ! i = merge_row (carry_sentinel (clean_row (df ! i)))"
    using assms(1) l r by (simp add: process_taxonomy_csv_def before_merge_def)
  then show ?thesis
    using np nf
    by (simp add: rows_where_def merge_row_def carry_sentinel_def clean_row_def fillna_def
        series_map_def)
qed

theorem both_invalid_passthrough_witness:
  "0 < length star_table \<and> both_invalid (clean_row (star_table ! 0))
   \<and> fst (process_taxonomy_csv demo_env star_table start) ! 0 =
        \<lparr>Common_Name = Some [], Latin_name = Some ''-'', Taxonomy_ID = Some ''5''\<rparr>"
proof -
  have h1: "0 < length star_table" by (simp add: star_table_def)
  have h2: "both_invalid (clean_row (star_table ! 0))"
    by (simp add: star_table_def both_invalid_def clean_row_def text_defs)
  have c: "clean_name (Common_Name (star_table ! 0)) = Some []"
    "clean_name (Latin_name (star_table ! 0)) = Some ''-''"
    "Taxonomy_ID (star_table ! 0) = Some ''5''"
    by (simp_all add: star_table_def text_defs)
  show ?thesis
    using both_invalid_passthrough [OF h1 h2, of demo_env start] h1 h2 c by simp
qed

text \<open>
  The output is the cleaned value, not the value of the input table: a Common Name
  that is a lone \<open>*\<close> is invalid once cleaned, and the row leaves with an empty
  Common Name.
\<close>

theorem both_invalid_unchanged_counterexample:
  "both_invalid (clean_row (star_table ! 0))
   \<and> Common_Name (star_table ! 0) = Some ''*''
   \<and> Common_Name (fst (process_taxonomy_csv demo_env star_table start) ! 0) = Some []"
  by (simp add: star_table_def both_invalid_def engine_defs table_defs text_defs demo_defs Let_def)

section \<open>What the second attempt erases\<close>

text \<open>
  C10. A fallback row whose Latin name is among the failed names of the first attempt,
  and whose \<open>temp_common\<close> is left out of the second attempt's batch (it is missing
  or invalid, or contains \<open>failed\<close> or \<open>unrecognizable\<close>), gets a missing
  \<open>temp_latin\<close> and a missing \<open>temp_taxid\<close> from part (c): the outcome of the first
  attempt is erased, and after the merge its Latin name and Taxonomy ID are the
  values the columns had before.
\<close>

theorem attempt2_erases_outcome:
  assumes "i < length df"
    and "mask_fallback (clean_row (df ! i))"
    and "clean_name (Latin_name (df ! i)) \<in> Some ` set (failed_latin_names (fst (snd (attempt1 en df w))))"
    and "\<not> usable (temp_common (fst (attempt1 en df w) ! i))"
  shows "temp_latin (fst (workflows en df w) ! i) = None
    \<and> temp_taxid (fst (workflows en df w) ! i) = None
    \<and> Latin_name (fst (process_taxonomy_csv en df w) ! i) = clean_name (Latin_name (df ! i))
    \<and> Taxonomy_ID (fst (process_taxonomy_csv en df w) ! i) = Taxonomy_ID (df ! i)"
proof -
  let ?df3 = "fst (attempt1 en df w)"
  let ?failed = "failed_latin_names (fst (snd (attempt1 en df w)))"
  let ?w3 = "snd (snd (attempt1 en df w))"
  have ne: "?failed \<noteq> []" using assms(3) by auto
  have wf: "fst (workflows en df w) = fst (fallback_c en ?failed ?df3 ?w3)"
    using assms(1,2) ne by (rule workflows_attempt2)
  have o: "map orig ?df3 = map orig (map clean_row df)" by (rule attempt1_orig)
  have l3: "i < length ?df3" using map_orig_length [OF o] assms(1) by simp
  have oi: "orig (?df3 ! i) = orig (clean_row (df ! i))"
    using map_orig_nth [OF o, of i] assms(1) by simp
  have mf: "mask_fallback (?df3 ! i)"
    using mask_fallback_orig [OF oi] assms(2) by simp
  have lc: "latin_col (?df3 ! i) = clean_name (Latin_name (df ! i))"
    using oi by (simp add: orig_def clean_row_def)
  have tc: "taxid_col (?df3 ! i) = Taxonomy_ID (df ! i)"
    using oi by (simp add: orig_def clean_row_def)
  have m2: "mask_attempt2 ?failed (?df3 ! i)"
    using mf lc assms(3) by (simp add: mask_attempt2_def)
  have fm: "series_map (attempt2_forward_map en ?failed ?df3 ?w3) (temp_common (?df3 ! i)) = None"
    using assms(4) by (rule forward_map_unusable)
  have row: "fst (workflows en df w) ! i =
      (?df3 ! i)\<lparr>temp_latin := None,
                  temp_taxid := series_map (attempt2_taxid_map en ?failed ?df3 ?w3) None\<rparr>"
    using fallback_c_row [OF l3, of en ?failed ?w3] m2 fm by (simp add: wf)
  have tl: "temp_latin (fst (workflows en df w) ! i) = None"
    and tt: "temp_taxid (fst (workflows en df w) ! i) = None"
    by (simp_all add: row series_map_def)
  have lw: "length (fst (workflows en df w)) = length df"
    using length_before_merge [of en df w] by (simp add: before_merge_def)
  have out: "fst (process_taxonomy_csv en df w) ! i
      = merge_row (carry_sentinel (fst (workflows en df w) ! i))"
    using assms(1) lw by (simp add: process_taxonomy_csv_def before_merge_def)
  have "Latin_name (fst (process_taxonomy_csv en df w) ! i) = clean_name (Latin_name (df ! i))"
    by (simp add: out merge_row_def carry_sentinel_def fillna_def row lc)
  moreover have "Taxonomy_ID (fst (process_taxonomy_csv en df w) ! i) = Taxonomy_ID (df ! i)"
    by (simp add: out merge_row_def carry_sentinel_def fillna_def series_map_def row tc)
  ultimately show ?thesis using tl tt by simp
qed

theorem attempt2_erases_outcome_witness:
  "0 < length canis_table
   \<and> mask_fallback (clean_row (canis_table ! 0))
   \<and> fst (snd (attempt1 demo_env canis_table start)) = [(''Canis'', ''Not found: '' @ [CHR 0x27] @ ''Canis'' @ [CHR 0x27])]
   \<and> temp_common (fst (attempt1 demo_env canis_table start) ! 0) = Some ''GLM call failed''
   \<and> temp_taxid (fst (attempt1 demo_env canis_table start) ! 0)
        = Some (''Not found: '' @ [CHR 0x27] @ ''Canis'' @ [CHR 0x27])
   \<and> temp_latin (fst (workflows demo_env canis_table start) ! 0) = None
   \<and> temp_taxid (fst (workflows demo_env canis_table start) ! 0) = None
   \<and> Latin_name (fst (process_taxonomy_csv demo_env canis_table start) ! 0) = Some ''Canis''
   \<and> Taxonomy_ID (fst (process_taxonomy_csv demo_env canis_table start) ! 0) = Some ''5''"
proof -
  have c: "map clean_row canis_table =
      [\<lparr>common_col = None, latin_col = Some ''Canis'', taxid_col = Some ''5'',
        temp_common = None, temp_latin = None, temp_taxid = None\<rparr>]"
    by (simp add: canis_table_def clean_row_def clean_name_def strip_def is_space_def)
  have v: "is_invalid None" "\<not> is_invalid (Some ''Canis'')"
    by (simp_all add: text_defs)
  have r: "batch_latin_to_common demo_env [''Canis''] start =
      ([(''Canis'', ''GLM call failed'')],
       \<lparr>events = [OracleCall LatinToCommon ''Canis'', Sleep 2, OracleCall LatinToCommon ''Canis'',
                  Sleep 4, OracleCall LatinToCommon ''Canis'', Sleep 6]\<rparr>)"
    by (simp add: resolver_defs demo_defs Let_def)
  have a: "batch_latin_to_taxid_ete3 demo_env [''Canis''] w =
     ([(''Canis'', ''Not found: '' @ [CHR 0x27] @ ''Canis'' @ [CHR 0x27])],
      log_event (Lookup [''Canis'']) w)" for w
    by (simp add: lookup_defs demo_env_def Let_def)
  have at: "fst (attempt1 demo_env canis_table start) =
      [\<lparr>common_col = None, latin_col = Some ''Canis'', taxid_col = Some ''5'',
        temp_common = Some ''GLM call failed'', temp_latin = Some ''Canis'',
        temp_taxid = Some (''Not found: '' @ [CHR 0x27] @ ''Canis'' @ [CHR 0x27])\<rparr>]
    \<and> fst (snd (attempt1 demo_env canis_table start)) =
      [(''Canis'', ''Not found: '' @ [CHR 0x27] @ ''Canis'' @ [CHR 0x27])]"
    by (simp add: attempt1_def c primary_workflow_def fallback_a_def
        fallback_b_def mask_primary_def mask_fallback_def v unique_latin_fallback_def
        column_where_def unique_def present_def List.map_filter_def r a assign_where_def
        series_map_def Let_def)
  have h1: "0 < length canis_table" by (simp add: canis_table_def)
  have h2: "mask_fallback (clean_row (canis_table ! 0))"
    using c v by (simp add: canis_table_def mask_fallback_def)
  have cl: "clean_name (Latin_name (canis_table ! 0)) = Some ''Canis''"
    by (simp add: canis_table_def clean_name_def strip_def is_space_def)
  have f: "failed_latin_names (fst (snd (attempt1 demo_env canis_table start))) = [''Canis'']"
    by (simp add: at failed_latin_names_def)
  have h3: "clean_name (Latin_name (canis_table ! 0))
      \<in> Some ` set (failed_latin_names (fst (snd (attempt1 demo_env canis_table start))))"
    by (simp add: cl f)
  have h4: "\<not> usable (temp_common (fst (attempt1 demo_env canis_table start) ! 0))"
    by (simp add: at usable_def)
  have t: "Taxonomy_ID (canis_table ! 0) = Some ''5''" by (simp add: canis_table_def)
  show ?thesis
    using attempt2_erases_outcome [OF h1 h2 h3 h4] h1 h2 at cl t by simp
qed

end
